theory Spec2Isabelle
  imports Main "HOL-Library.Word"
begin

section \<open>Go values shared by all packages\<close>

text \<open>
  A Go call either returns, panics with a value, or ends the process (\<open>os.Exit\<close>).
  The panic value is kept as the text that \<open>%v\<close> prints for it.
\<close>

datatype 'a outcome = Return 'a | Panic string | Exit int

text \<open>
  The only status code built by the code is \<open>codes.Internal\<close>; every other error value
  comes from a downstream client and is carried as its message.
\<close>

datatype codes = Internal

datatype error = Error string | StatusError codes string

text \<open>The pair \<open>(*T, error)\<close> that every RPC method returns; either side may be nil.\<close>

type_synonym 'a reply = "'a option \<times> error option"

type_synonym byte = "8 word"

text \<open>
  go-ethereum's logger. A context value is a string, a list of strings, an error, or a
  value whose rendering is left open (a request or a response). \<open>LogStack\<close> is the
  debug-level dump of \<open>debug.Stack()\<close>.
\<close>

datatype Lvl = LvlCrit | LvlError | LvlInfo | LvlDebug

datatype LogValue = LStr string | LStrs "string list" | LErr "error option" | LAny

datatype LogEvent = Log Lvl string "LogValue list" | LogStack

text \<open>
  The world outside the dispatcher: the log written so far and the state \<open>'n\<close> of the
  network behind the downstream clients.
\<close>

record 'n World =
  logs :: "LogEvent list"
  net :: 'n

definition log :: "LogEvent \<Rightarrow> 'n World \<Rightarrow> 'n World" where
  "log ev w = w\<lparr>logs := logs w @ [ev]\<rparr>"

definition on_net :: "('n \<Rightarrow> 'a \<times> 'n) \<Rightarrow> 'n World \<Rightarrow> 'a \<times> 'n World" where
  "on_net f w = (case f (net w) of (r, n) \<Rightarrow> (r, w\<lparr>net := n\<rparr>))"

definition nil_dereference :: string where
  "nil_dereference = ''runtime error: invalid memory address or nil pointer dereference''"

definition index_out_of_range :: string where
  "index_out_of_range = ''runtime error: index out of range''"

definition slice_out_of_range :: string where
  "slice_out_of_range = ''runtime error: slice bounds out of range''"

section \<open>Package \<open>rpc/common\<close> and \<open>rpc/account\<close>: the messages\<close>

text \<open>
  The message types are generated code; each record below has the fields that the
  dispatcher and the ethereum adaptor read or write. Every request
  carries \<open>Chain\<close> (the interface \<open>CommonRequest\<close>), every response \<open>Code\<close> and
  \<open>Msg\<close>. A field that a composite literal leaves out holds Go's zero value.
\<close>

datatype ReturnCode = ReturnCode_ERROR | ReturnCode_SUCCESS

type_synonym ChainType = string

record CommonRequest =
  Chain :: ChainType

type_synonym SupportChainsRequest = CommonRequest

record ConvertAddressRequest = CommonRequest +
  PublicKey :: "byte list"

type_synonym ValidAddressRequest = CommonRequest

record BlockNumberRequest = CommonRequest +
  Height :: "64 word"

type_synonym BlockHashRequest = CommonRequest

record BlockHeaderHashRequest = CommonRequest +
  Hash :: string

record BlockHeaderNumberRequest = CommonRequest +
  Height :: "64 word"

record AccountRequest = CommonRequest +
  Address :: string
  ContractAddress :: string

type_synonym FeeRequest = CommonRequest
type_synonym SendTxRequest = CommonRequest
type_synonym TxAddressRequest = CommonRequest
type_synonym TxHashRequest = CommonRequest
type_synonym BlockByRangeRequest = CommonRequest
type_synonym UnSignTransactionRequest = CommonRequest
type_synonym SignedTransactionRequest = CommonRequest
type_synonym DecodeTransactionRequest = CommonRequest
type_synonym VerifyTransactionRequest = CommonRequest
type_synonym ExtraDataRequest = CommonRequest

record Envelope =
  Code :: ReturnCode
  Msg :: string

record SupportChainsResponse = Envelope +
  Support :: bool

type_synonym CommonReply = SupportChainsResponse

record ConvertAddressResponse = Envelope +
  Address :: string

type_synonym ValidAddressResponse = Envelope

record BlockInfoTransactionList =
  From :: string
  To :: string
  Hash :: string
  Time :: string
  Amount :: string
  Fee :: string
  Status :: string

record BlockResponse = Envelope +
  Hash :: string
  BaseFee :: string
  Transactions :: "BlockInfoTransactionList list"

record BlockHeader =
  ParentHash :: string
  UncleHash :: string
  CoinBase :: string
  Root :: string
  TxHash :: string
  ReceiptHash :: string
  ParentBeaconRoot :: string
  Difficulty :: string
  Number :: string
  GasLimit :: "64 word"
  GasUsed :: "64 word"
  Time :: "64 word"
  Extra :: string
  MixDigest :: string
  Nonce :: string
  BaseFee :: string
  WithdrawalsHash :: string
  BlobGasUsed :: "64 word"
  ExcessBlobGas :: "64 word"

record BlockHeaderResponse = Envelope +
  BlockHeader :: "BlockHeader option"

record AccountResponse = Envelope +
  AccountNumber :: string
  Sequence :: string
  Balance :: string

type_synonym FeeResponse = Envelope
type_synonym SendTxResponse = Envelope
type_synonym TxAddressResponse = Envelope
type_synonym TxHashResponse = Envelope
type_synonym BlockByRangeResponse = Envelope
type_synonym UnSignTransactionResponse = Envelope
type_synonym SignedTransactionResponse = Envelope
type_synonym DecodeTransactionResponse = Envelope
type_synonym VerifyTransactionResponse = Envelope
type_synonym ExtraDataResponse = Envelope

section \<open>Package \<open>config\<close>\<close>

text \<open>
  The records have the fields of the configuration that \<open>New\<close>, \<open>NewChainAdaptor\<close>
  and \<open>main\<close> read.
\<close>

record RPC =
  RPCURL :: string

record Node =
  RPCs :: "RPC list"
  DataApiUrl :: string
  DataApiKey :: string
  TimeOut :: int

record WalletNode =
  Eth :: Node

record Server =
  Port :: string

record Config =
  Server :: Server
  Chains :: "string list"
  WalletNode :: WalletNode

text \<open>
  Modelled from the spec: the constant \<open>config.UnsupportedOperation\<close>, whose declaration
  is in another file of package \<open>config\<close>; the specification gives the message of an
  unknown chain as "unsupported operation".
\<close>

definition UnsupportedOperation :: string where
  "UnsupportedOperation = ''unsupported operation''"

section \<open>Package \<open>chain\<close>: the adaptor contract\<close>

text \<open>
  The interface \<open>chain.IChainAdaptor\<close>: one method per wallet operation, each taking the
  request and returning \<open>(*Response, error)\<close>. A method runs against the world and may
  change it (it logs and calls the network).
\<close>

type_synonym ('q, 'r, 'n) adaptor_method = "'q \<Rightarrow> 'n World \<Rightarrow> 'r reply outcome \<times> 'n World"

record 'n IChainAdaptor =
  GetSupportChains :: "(SupportChainsRequest, SupportChainsResponse, 'n) adaptor_method"
  ConvertAddress :: "(ConvertAddressRequest, ConvertAddressResponse, 'n) adaptor_method"
  ValidAddress :: "(ValidAddressRequest, ValidAddressResponse, 'n) adaptor_method"
  GetBlockByNumber :: "(BlockNumberRequest, BlockResponse, 'n) adaptor_method"
  GetBlockByHash :: "(BlockHashRequest, BlockResponse, 'n) adaptor_method"
  GetBlockHeaderByHash :: "(BlockHeaderHashRequest, BlockHeaderResponse, 'n) adaptor_method"
  GetBlockHeaderByNumber :: "(BlockHeaderNumberRequest, BlockHeaderResponse, 'n) adaptor_method"
  GetAccount :: "(AccountRequest, AccountResponse, 'n) adaptor_method"
  GetFee :: "(FeeRequest, FeeResponse, 'n) adaptor_method"
  SendTx :: "(SendTxRequest, SendTxResponse, 'n) adaptor_method"
  GetTxByAddress :: "(TxAddressRequest, TxAddressResponse, 'n) adaptor_method"
  GetTxByHash :: "(TxHashRequest, TxHashResponse, 'n) adaptor_method"
  GetBlockByRange :: "(BlockByRangeRequest, BlockByRangeResponse, 'n) adaptor_method"
  CreateUnSignTransaction :: "(UnSignTransactionRequest, UnSignTransactionResponse, 'n) adaptor_method"
  BuildSignedTransaction :: "(SignedTransactionRequest, SignedTransactionResponse, 'n) adaptor_method"
  DecodeTransaction :: "(DecodeTransactionRequest, DecodeTransactionResponse, 'n) adaptor_method"
  VerifySignedTransaction :: "(VerifyTransactionRequest, VerifyTransactionResponse, 'n) adaptor_method"
  GetExtraData :: "(ExtraDataRequest, ExtraDataResponse, 'n) adaptor_method"

section \<open>Package \<open>ethereum\<close>: the adaptor of the Ethereum chain\<close>

subsection \<open>What the adaptor calls\<close>

text \<open>
  go-ethereum's \<open>common.Hash\<close> and \<open>common.Address\<close> are byte arrays of length 32 and 20,
  \<open>*big.Int\<close> is an optional integer. \<open>types.Header\<close> has pointer fields that are nil
  on blocks older than the fork that introduced them. \<open>Nonce\<close> holds what
  \<open>Nonce.Uint64()\<close> reads.
\<close>

type_synonym Hash = "byte list"
type_synonym Address = "byte list"

definition AddressLength :: nat where
  "AddressLength = 20"

definition HashLength :: nat where
  "HashLength = 32"

record Header =
  ParentHash :: Hash
  UncleHash :: Hash
  Coinbase :: Address
  Root :: Hash
  TxHash :: Hash
  ReceiptHash :: Hash
  Difficulty :: "int option"
  Number :: "int option"
  GasLimit :: "64 word"
  GasUsed :: "64 word"
  Time :: "64 word"
  Extra :: "byte list"
  MixDigest :: Hash
  Nonce :: "64 word"
  BaseFee :: "int option"
  WithdrawalsHash :: "Hash option"
  BlobGasUsed :: "64 word option"
  ExcessBlobGas :: "64 word option"
  ParentBeaconRoot :: "Hash option"

text \<open>
  The block, the balance and the two clients of package \<open>ethereum\<close> are declared in other
  files of the package; the records have what the adaptor uses of them. A client call
  changes the network state and returns either an error or a result.
\<close>

record TransactionList =
  To :: string
  Hash :: string

record RpcBlock =
  Hash :: Hash
  BaseFee :: string
  Transactions :: "TransactionList list"

record AccountBalance =
  BalanceStr :: string

record 'n EthClient =
  BlockHeaderByHash :: "Hash \<Rightarrow> 'n \<Rightarrow> (error + Header) \<times> 'n"
  BlockHeaderByNumber :: "int option \<Rightarrow> 'n \<Rightarrow> (error + Header) \<times> 'n"
  BlockByNumber :: "int option \<Rightarrow> 'n \<Rightarrow> (error + RpcBlock) \<times> 'n"
  TxCountByAddress :: "Address \<Rightarrow> 'n \<Rightarrow> (error + 64 word) \<times> 'n"

record 'n EthData =
  getBalanceByaddress :: "string \<Rightarrow> string \<Rightarrow> 'n \<Rightarrow> (error + AccountBalance) \<times> 'n"

text \<open>
  The functions of go-ethereum and of Go's library that the adaptor calls, and the two
  constructors of the clients, are parameters of the model: \<open>crypto.Keccak256\<close>,
  \<open>Address.String\<close> (the checksummed hex form), \<open>Hash.String\<close>, \<open>common.HexToHash\<close>,
  \<open>common.HexToAddress\<close>, \<open>(*big.Int).String\<close>, \<open>strconv.FormatUint\<close> in base 10,
  the \<open>String\<close> method of the transaction count, \<open>DialEthClient\<close> and
  \<open>NewEthDataClient\<close>.
\<close>

record 'n Externals =
  Keccak256 :: "byte list \<Rightarrow> byte list"
  Address_String :: "Address \<Rightarrow> string"
  Hash_String :: "Hash \<Rightarrow> string"
  HexToHash :: "string \<Rightarrow> Hash"
  HexToAddress :: "string \<Rightarrow> Address"
  BigInt_String :: "int option \<Rightarrow> string"
  FormatUint :: "64 word \<Rightarrow> string"
  Uint64_String :: "64 word \<Rightarrow> string"
  DialEthClient :: "string \<Rightarrow> 'n \<Rightarrow> (error + 'n EthClient) \<times> 'n"
  NewEthDataClient :: "string \<Rightarrow> string \<Rightarrow> int \<Rightarrow> 'n \<Rightarrow> (error + 'n EthData) \<times> 'n"

text \<open>
  \<open>common.BytesToAddress\<close>: the last 20 bytes of a longer slice, a shorter one padded
  with zero bytes on the left.
\<close>

definition BytesToAddress :: "byte list \<Rightarrow> Address" where
  "BytesToAddress b =
     (let b' = (if length b > AddressLength then drop (length b - AddressLength) b else b)
      in replicate (AddressLength - length b') 0 @ b')"

text \<open>The conversion \<open>string(bytes)\<close>.\<close>

definition string_of_bytes :: "byte list \<Rightarrow> string" where
  "string_of_bytes bs = map (\<lambda>b. char_of (unat b)) bs"

subsection \<open>The adaptor\<close>

definition ChainName :: string where
  "ChainName = ''Ethereum''"

record 'n ChainAdaptor =
  ethClient :: "'n EthClient"
  ethDataClient :: "'n EthData"

definition ChainAdaptor_GetSupportChains ::
  "'n ChainAdaptor \<Rightarrow> (SupportChainsRequest, SupportChainsResponse, 'n) adaptor_method" where
  "ChainAdaptor_GetSupportChains c req w =
     (Return (Some \<lparr>Code = ReturnCode_SUCCESS, Msg = ''Support this chain'', Support = True\<rparr>,
              None), w)"

text \<open>
  \<open>req.PublicKey[1:]\<close> panics on an empty key and \<open>[12:]\<close> on a hash of fewer than
  12 bytes.
\<close>

definition ChainAdaptor_ConvertAddress ::
  "'n Externals \<Rightarrow> 'n ChainAdaptor \<Rightarrow>
   (ConvertAddressRequest, ConvertAddressResponse, 'n) adaptor_method" where
  "ChainAdaptor_ConvertAddress ext c req w =
     (if length (PublicKey req) < 1 then (Panic slice_out_of_range, w)
      else let hash = Keccak256 ext (drop 1 (PublicKey req)) in
        if length hash < 12 then (Panic slice_out_of_range, w)
        else let addressCommon = BytesToAddress (drop 12 hash) in
          (Return (Some \<lparr>Code = ReturnCode_SUCCESS, Msg = ''convert address successs'',
                          Address = Address_String ext addressCommon\<rparr>, None), w))"

text \<open>
  The literal \<open>&account.BlockHeader{...}\<close> that both header methods build from the
  header the node returned. \<open>Hash.String\<close> has a value receiver, so the two optional
  hashes are dereferenced, as the two blob-gas counters are: a nil one panics.
  \<open>(*big.Int).String\<close> accepts nil.
\<close>

definition blockHeader_of :: "'n Externals \<Rightarrow> Header \<Rightarrow> BlockHeader outcome" where
  "blockHeader_of ext blockInfo =
     (case (Header.ParentBeaconRoot blockInfo, Header.WithdrawalsHash blockInfo,
            Header.BlobGasUsed blockInfo, Header.ExcessBlobGas blockInfo) of
        (Some parentBeaconRoot, Some withdrawalsHash, Some blobGasUsed, Some excessBlobGas) \<Rightarrow>
          Return \<lparr>BlockHeader.ParentHash = Hash_String ext (Header.ParentHash blockInfo),
                  BlockHeader.UncleHash = Hash_String ext (Header.UncleHash blockInfo),
                  BlockHeader.CoinBase = Address_String ext (Header.Coinbase blockInfo),
                  BlockHeader.Root = Hash_String ext (Header.Root blockInfo),
                  BlockHeader.TxHash = Hash_String ext (Header.TxHash blockInfo),
                  BlockHeader.ReceiptHash = Hash_String ext (Header.ReceiptHash blockInfo),
                  BlockHeader.ParentBeaconRoot = Hash_String ext parentBeaconRoot,
                  BlockHeader.Difficulty = BigInt_String ext (Header.Difficulty blockInfo),
                  BlockHeader.Number = BigInt_String ext (Header.Number blockInfo),
                  BlockHeader.GasLimit = Header.GasLimit blockInfo,
                  BlockHeader.GasUsed = Header.GasUsed blockInfo,
                  BlockHeader.Time = Header.Time blockInfo,
                  BlockHeader.Extra = string_of_bytes (Header.Extra blockInfo),
                  BlockHeader.MixDigest = Hash_String ext (Header.MixDigest blockInfo),
                  BlockHeader.Nonce = FormatUint ext (Header.Nonce blockInfo),
                  BlockHeader.BaseFee = BigInt_String ext (Header.BaseFee blockInfo),
                  BlockHeader.WithdrawalsHash = Hash_String ext withdrawalsHash,
                  BlockHeader.BlobGasUsed = blobGasUsed,
                  BlockHeader.ExcessBlobGas = excessBlobGas\<rparr>
      | _ \<Rightarrow> Panic nil_dereference)"

definition ChainAdaptor_GetBlockHeaderByHash ::
  "'n Externals \<Rightarrow> 'n ChainAdaptor \<Rightarrow>
   (BlockHeaderHashRequest, BlockHeaderResponse, 'n) adaptor_method" where
  "ChainAdaptor_GetBlockHeaderByHash ext c req w =
     (let blockHash = (if BlockHeaderHashRequest.Hash req = [] then replicate HashLength 0
                       else HexToHash ext (BlockHeaderHashRequest.Hash req)) in
      case on_net (BlockHeaderByHash (ethClient c) blockHash) w of
        (Inl err, w1) \<Rightarrow>
          (Return (Some \<lparr>Code = ReturnCode_ERROR, Msg = ''get latest block header fail'',
                          BlockHeader = None\<rparr>, None),
           log (Log LvlError ''get latest block header fail'' [LStr ''err'', LErr (Some err)]) w1)
      | (Inr blockInfo, w1) \<Rightarrow>
          (case blockHeader_of ext blockInfo of
             Return blockHeader \<Rightarrow>
               (Return (Some \<lparr>Code = ReturnCode_SUCCESS,
                               Msg = ''get latest block header success'',
                               BlockHeader = Some blockHeader\<rparr>, None), w1)
           | Panic e \<Rightarrow> (Panic e, w1)
           | Exit n \<Rightarrow> (Exit n, w1)))"

definition ChainAdaptor_GetBlockHeaderByNumber ::
  "'n Externals \<Rightarrow> 'n ChainAdaptor \<Rightarrow>
   (BlockHeaderNumberRequest, BlockHeaderResponse, 'n) adaptor_method" where
  "ChainAdaptor_GetBlockHeaderByNumber ext c req w =
     (let blockNumber = (if BlockHeaderNumberRequest.Height req = 0 then None
                         else Some (sint (BlockHeaderNumberRequest.Height req))) in
      case on_net (BlockHeaderByNumber (ethClient c) blockNumber) w of
        (Inl err, w1) \<Rightarrow>
          (Return (Some \<lparr>Code = ReturnCode_ERROR, Msg = ''get lates block number fail'',
                          BlockHeader = None\<rparr>, None),
           log (Log LvlError ''get latest block header fail !'' [LStr ''err:'', LErr (Some err)])
             w1)
      | (Inr blockInfo, w1) \<Rightarrow>
          (case blockHeader_of ext blockInfo of
             Return blockHeader \<Rightarrow>
               (Return (Some \<lparr>Code = ReturnCode_SUCCESS,
                               Msg = ''get latest block header success'',
                               BlockHeader = Some blockHeader\<rparr>, None), w1)
           | Panic e \<Rightarrow> (Panic e, w1)
           | Exit n \<Rightarrow> (Exit n, w1)))"

definition ChainAdaptor_GetBlockByNumber ::
  "'n Externals \<Rightarrow> 'n ChainAdaptor \<Rightarrow> (BlockNumberRequest, BlockResponse, 'n) adaptor_method" where
  "ChainAdaptor_GetBlockByNumber ext c req w =
     (case on_net (BlockByNumber (ethClient c) (Some (sint (BlockNumberRequest.Height req)))) w of
        (Inl err, w1) \<Rightarrow>
          (Return (Some \<lparr>Code = ReturnCode_ERROR, Msg = ''block by number error'',
                          BlockResponse.Hash = [], BlockResponse.BaseFee = [],
                          BlockResponse.Transactions = []\<rparr>, None),
           log (Log LvlError ''block by number error'' [LErr (Some err)]) w1)
      | (Inr block, w1) \<Rightarrow>
          (let txListRet =
                 map (\<lambda>v. \<lparr>From = ''0x000'', BlockInfoTransactionList.To = TransactionList.To v,
                            BlockInfoTransactionList.Hash = TransactionList.Hash v,
                            BlockInfoTransactionList.Time = ''0'', Amount = ''10'',
                            Fee = ''0'', Status = ''1''\<rparr>)
                     (RpcBlock.Transactions block)
           in (Return (Some \<lparr>Code = ReturnCode_SUCCESS, Msg = ''get block by number success'',
                              BlockResponse.Hash = Hash_String ext (RpcBlock.Hash block),
                              BlockResponse.BaseFee = RpcBlock.BaseFee block,
                              BlockResponse.Transactions = txListRet\<rparr>, None), w1)))"

definition ChainAdaptor_ValidAddress ::
  "'n ChainAdaptor \<Rightarrow> (ValidAddressRequest, ValidAddressResponse, 'n) adaptor_method" where
  "ChainAdaptor_ValidAddress c req w = (Return (None, None), w)"

definition ChainAdaptor_GetBlockByHash ::
  "'n ChainAdaptor \<Rightarrow> (BlockHashRequest, BlockResponse, 'n) adaptor_method" where
  "ChainAdaptor_GetBlockByHash c req w = (Panic ''implement me'', w)"

definition ChainAdaptor_GetAccount ::
  "'n Externals \<Rightarrow> 'n ChainAdaptor \<Rightarrow> (AccountRequest, AccountResponse, 'n) adaptor_method" where
  "ChainAdaptor_GetAccount ext c req w =
     (case on_net (TxCountByAddress (ethClient c)
                     (HexToAddress ext (AccountRequest.Address req))) w of
        (Inl err, w1) \<Rightarrow>
          (Return (Some \<lparr>Code = ReturnCode_ERROR, Msg = ''get nonce by address fail'',
                          AccountNumber = [], Sequence = [], Balance = []\<rparr>, None),
           log (Log LvlError ''get nonce by account fail'' [LStr ''err:'', LErr (Some err)]) w1)
      | (Inr nonceResult, w1) \<Rightarrow>
          (case on_net (getBalanceByaddress (ethDataClient c) (ContractAddress req)
                          (AccountRequest.Address req)) w1 of
             (Inl err, w2) \<Rightarrow>
               (Return (Some \<lparr>Code = ReturnCode_ERROR, Msg = ''get balance by address fail'',
                               AccountNumber = [], Sequence = [], Balance = ''0''\<rparr>, Some err),
                log (Log LvlError ''get balance by address fail'' [LStr ''err:'', LErr (Some err)])
                  w2)
           | (Inr balanceResult, w2) \<Rightarrow>
               (Return (Some \<lparr>Code = ReturnCode_SUCCESS, Msg = ''get account response success'',
                               AccountNumber = ''0'',
                               Sequence = Uint64_String ext nonceResult,
                               Balance = BalanceStr balanceResult\<rparr>, None), w2)))"

definition ChainAdaptor_GetFee :: "'n ChainAdaptor \<Rightarrow> (FeeRequest, FeeResponse, 'n) adaptor_method" where
  "ChainAdaptor_GetFee c req w = (Panic ''implement me'', w)"

definition ChainAdaptor_SendTx ::
  "'n ChainAdaptor \<Rightarrow> (SendTxRequest, SendTxResponse, 'n) adaptor_method" where
  "ChainAdaptor_SendTx c req w = (Panic ''implement me'', w)"

definition ChainAdaptor_GetTxByAddress ::
  "'n ChainAdaptor \<Rightarrow> (TxAddressRequest, TxAddressResponse, 'n) adaptor_method" where
  "ChainAdaptor_GetTxByAddress c req w = (Panic ''implement me'', w)"

definition ChainAdaptor_GetTxByHash ::
  "'n ChainAdaptor \<Rightarrow> (TxHashRequest, TxHashResponse, 'n) adaptor_method" where
  "ChainAdaptor_GetTxByHash c req w = (Panic ''implement me'', w)"

definition ChainAdaptor_GetBlockByRange ::
  "'n ChainAdaptor \<Rightarrow> (BlockByRangeRequest, BlockByRangeResponse, 'n) adaptor_method" where
  "ChainAdaptor_GetBlockByRange c req w = (Panic ''implement me'', w)"

definition ChainAdaptor_CreateUnSignTransaction ::
  "'n ChainAdaptor \<Rightarrow> (UnSignTransactionRequest, UnSignTransactionResponse, 'n) adaptor_method" where
  "ChainAdaptor_CreateUnSignTransaction c req w = (Panic ''implement me'', w)"

definition ChainAdaptor_BuildSignedTransaction ::
  "'n ChainAdaptor \<Rightarrow> (SignedTransactionRequest, SignedTransactionResponse, 'n) adaptor_method" where
  "ChainAdaptor_BuildSignedTransaction c req w = (Panic ''implement me'', w)"

definition ChainAdaptor_DecodeTransaction ::
  "'n ChainAdaptor \<Rightarrow> (DecodeTransactionRequest, DecodeTransactionResponse, 'n) adaptor_method" where
  "ChainAdaptor_DecodeTransaction c req w = (Panic ''implement me'', w)"

definition ChainAdaptor_VerifySignedTransaction ::
  "'n ChainAdaptor \<Rightarrow> (VerifyTransactionRequest, VerifyTransactionResponse, 'n) adaptor_method" where
  "ChainAdaptor_VerifySignedTransaction c req w = (Panic ''implement me'', w)"

definition ChainAdaptor_GetExtraData ::
  "'n ChainAdaptor \<Rightarrow> (ExtraDataRequest, ExtraDataResponse, 'n) adaptor_method" where
  "ChainAdaptor_GetExtraData c req w = (Panic ''implement me'', w)"




text \<open>
  The value of interface type \<open>chain.IChainAdaptor\<close> that Go makes of a
  \<open>*ChainAdaptor\<close>: its method set.
\<close>

definition as_IChainAdaptor :: "'n Externals \<Rightarrow> 'n ChainAdaptor \<Rightarrow> 'n IChainAdaptor" where
  "as_IChainAdaptor ext c =
     \<lparr>GetSupportChains = ChainAdaptor_GetSupportChains c,
      ConvertAddress = ChainAdaptor_ConvertAddress ext c,
      ValidAddress = ChainAdaptor_ValidAddress c,
      GetBlockByNumber = ChainAdaptor_GetBlockByNumber ext c,
      GetBlockByHash = ChainAdaptor_GetBlockByHash c,
      GetBlockHeaderByHash = ChainAdaptor_GetBlockHeaderByHash ext c,
      GetBlockHeaderByNumber = ChainAdaptor_GetBlockHeaderByNumber ext c,
      GetAccount = ChainAdaptor_GetAccount ext c,
      GetFee = ChainAdaptor_GetFee c,
      SendTx = ChainAdaptor_SendTx c,
      GetTxByAddress = ChainAdaptor_GetTxByAddress c,
      GetTxByHash = ChainAdaptor_GetTxByHash c,
      GetBlockByRange = ChainAdaptor_GetBlockByRange c,
      CreateUnSignTransaction = ChainAdaptor_CreateUnSignTransaction c,
      BuildSignedTransaction = ChainAdaptor_BuildSignedTransaction c,
      DecodeTransaction = ChainAdaptor_DecodeTransaction c,
      VerifySignedTransaction = ChainAdaptor_VerifySignedTransaction c,
      GetExtraData = ChainAdaptor_GetExtraData c\<rparr>"

text \<open>\<open>conf.WalletNode.Eth.RPCs[0]\<close> panics when no node is configured.\<close>

definition NewChainAdaptor ::
  "'n Externals \<Rightarrow> Config \<Rightarrow> 'n World \<Rightarrow> (error + 'n IChainAdaptor) outcome \<times> 'n World" where
  "NewChainAdaptor ext conf w =
     (case RPCs (Eth (WalletNode conf)) of
        [] \<Rightarrow> (Panic index_out_of_range, w)
      | rpc # _ \<Rightarrow>
          (case on_net (DialEthClient ext (RPCURL rpc)) w of
             (Inl err, w1) \<Rightarrow> (Return (Inl err), w1)
           | (Inr client, w1) \<Rightarrow>
               (case on_net (NewEthDataClient ext (DataApiUrl (Eth (WalletNode conf)))
                               (DataApiKey (Eth (WalletNode conf)))
                               (TimeOut (Eth (WalletNode conf)))) w1 of
                  (Inl err, w2) \<Rightarrow> (Return (Inl err), w2)
                | (Inr dataClient, w2) \<Rightarrow>
                    (Return (Inr (as_IChainAdaptor ext
                                    \<lparr>ethClient = client, ethDataClient = dataClient\<rparr>)),
                     w2))))"

section \<open>Package \<open>chaindispatcher\<close>\<close>

record 'n ChainDispatcher =
  registry :: "ChainType \<rightharpoonup> 'n IChainAdaptor"

text \<open>
  The state a request is served in: the dispatcher that \<open>main\<close> registered as the
  service, and the world. A method of \<open>*ChainDispatcher\<close> reads the dispatcher from the
  state and returns the state it leaves behind.
\<close>

record 'n Serving =
  dispatcher :: "'n ChainDispatcher"
  world :: "'n World"

type_synonym ('q, 'r, 'n) rpc = "'q \<Rightarrow> 'n Serving \<Rightarrow> 'r reply outcome \<times> 'n Serving"

definition chainAdaptorFactorMap ::
  "'n Externals \<Rightarrow>
   (string \<rightharpoonup> (Config \<Rightarrow> 'n World \<Rightarrow> (error + 'n IChainAdaptor) outcome \<times> 'n World))" where
  "chainAdaptorFactorMap ext = [ChainName \<mapsto> NewChainAdaptor ext]"

definition supportedChains :: "string list" where
  "supportedChains = [ChainName]"

text \<open>
  The loop of \<open>New\<close> over \<open>conf.Chains\<close>. \<open>log.Crit\<close> writes the event and ends the
  process with status 1.
\<close>

fun New_loop ::
  "'n Externals \<Rightarrow> Config \<Rightarrow> string list \<Rightarrow> 'n ChainDispatcher \<Rightarrow> 'n World \<Rightarrow>
   'n ChainDispatcher outcome \<times> 'n World" where
  "New_loop ext conf [] d w = (Return d, w)"
| "New_loop ext conf (c # cs) d w =
     (case chainAdaptorFactorMap ext c of
        Some factory \<Rightarrow>
          (case factory conf w of
             (Return (Inl err), w1) \<Rightarrow>
               (Exit 1, log (Log LvlCrit ''failed to setup chain''
                               [LStr ''chain'', LStr c, LStr ''error'', LErr (Some err)]) w1)
           | (Return (Inr adaptor), w1) \<Rightarrow>
               New_loop ext conf cs (d\<lparr>registry := (registry d)(c \<mapsto> adaptor)\<rparr>) w1
           | (Panic e, w1) \<Rightarrow> (Panic e, w1)
           | (Exit n, w1) \<Rightarrow> (Exit n, w1))
      | None \<Rightarrow>
          New_loop ext conf cs d
            (log (Log LvlError ''unsupported chain''
                    [LStr ''chain'', LStr c, LStr ''supportedChains'', LStrs supportedChains]) w))"

definition New ::
  "'n Externals \<Rightarrow> Config \<Rightarrow> 'n World \<Rightarrow>
   ('n ChainDispatcher \<times> error option) outcome \<times> 'n World" where
  "New ext conf w =
     (case New_loop ext conf (Chains conf) \<lparr>registry = Map.empty\<rparr> w of
        (Return d, w1) \<Rightarrow> (Return (d, None), w1)
      | (Panic e, w1) \<Rightarrow> (Panic e, w1)
      | (Exit n, w1) \<Rightarrow> (Exit n, w1))"

text \<open>
  \<open>strings.LastIndex\<close> for a separator of one byte: the index of its last occurrence,
  or \<open>-1\<close>.
\<close>

definition LastIndex :: "string \<Rightarrow> char \<Rightarrow> int" where
  "LastIndex s sep =
     (if sep \<in> set s then int (length s) - 1 - int (length (takeWhile (\<lambda>x. x \<noteq> sep) (rev s)))
      else - 1)"

record UnaryServerInfo =
  FullMethod :: string

definition status_Errorf :: "codes \<Rightarrow> string \<Rightarrow> error" where
  "status_Errorf c msg = StatusError c msg"

definition slog :: "LogEvent \<Rightarrow> 'n Serving \<Rightarrow> 'n Serving" where
  "slog ev s = s\<lparr>world := log ev (world s)\<rparr>"

text \<open>
  The interceptor. Every request of the service has \<open>GetChain\<close>, so the assertion
  \<open>req.(CommonRequest)\<close> holds. When the handler panics with \<open>e\<close>, the deferred function
  recovers: it logs \<open>e\<close> and the stack and sets \<open>err\<close>; \<open>resp\<close> is still nil.
\<close>

definition Interceptor ::
  "'a CommonRequest_scheme \<Rightarrow> UnaryServerInfo \<Rightarrow>
   ('a CommonRequest_scheme, 'r, 'n) rpc \<Rightarrow> 'n Serving \<Rightarrow> 'r reply outcome \<times> 'n Serving" where
  "Interceptor req info handler s =
     (let pos = LastIndex (FullMethod info) (CHR ''/'');
          methodName = drop (nat (pos + 1)) (FullMethod info);
          chainName = Chain req;
          s1 = slog (Log LvlInfo methodName [LStr ''chain'', LStr chainName, LStr ''req'', LAny]) s
      in case handler req s1 of
           (Return (resp, err), s2) \<Rightarrow>
             (Return (resp, err),
              slog (Log LvlDebug ''Finish handling'' [LStr ''resp:'', LAny, LStr ''err:'', LErr err])
                s2)
         | (Panic e, s2) \<Rightarrow>
             (Return (None, Some (status_Errorf Internal (''Panic err: '' @ e))),
              slog LogStack (slog (Log LvlError ''panic error'' [LStr ''msg'', LStr e]) s2))
         | (Exit n, s2) \<Rightarrow> (Exit n, s2))"

definition preHandler :: "'n ChainDispatcher \<Rightarrow> 'a CommonRequest_scheme \<Rightarrow> CommonReply option" where
  "preHandler d req =
     (let chainName = Chain req in
      if registry d chainName = None
      then Some \<lparr>Code = ReturnCode_ERROR, Msg = UnsupportedOperation, Support = False\<rparr>
      else None)"

text \<open>
  The call \<open>d.registry[request.Chain].M(request)\<close>: the adaptor's method runs against the
  world. Indexing the map with a missing key gives the nil interface, and a method call on
  it panics.
\<close>

definition registry_call ::
  "ChainType \<Rightarrow> ('n IChainAdaptor \<Rightarrow> 'n World \<Rightarrow> 'b outcome \<times> 'n World) \<Rightarrow> 'n Serving \<Rightarrow>
   'b outcome \<times> 'n Serving" where
  "registry_call chain m s =
     (case registry (dispatcher s) chain of
        None \<Rightarrow> (Panic nil_dereference, s)
      | Some adaptor \<Rightarrow> (case m adaptor (world s) of (r, w) \<Rightarrow> (r, s\<lparr>world := w\<rparr>)))"

definition ChainDispatcher_GetSupportChains ::
  "(SupportChainsRequest, SupportChainsResponse, 'n) rpc" where
  "ChainDispatcher_GetSupportChains request s =
     (case preHandler (dispatcher s) request of
        Some resp \<Rightarrow>
          (Return (Some \<lparr>Code = ReturnCode_ERROR, Msg = UnsupportedOperation,
                          Support = False\<rparr>, None), s)
      | None \<Rightarrow> registry_call (Chain request) (\<lambda>a. GetSupportChains a request) s)"

definition ChainDispatcher_ConvertAddress ::
  "(ConvertAddressRequest, ConvertAddressResponse, 'n) rpc" where
  "ChainDispatcher_ConvertAddress request s =
     (case preHandler (dispatcher s) request of
        Some resp \<Rightarrow>
          (Return (Some \<lparr>Code = ReturnCode_ERROR, Msg = ''covert address fail at pre handle'', Address = []\<rparr>, None), s)
      | None \<Rightarrow> registry_call (Chain request) (\<lambda>a. ConvertAddress a request) s)"

definition ChainDispatcher_ValidAddress ::
  "(ValidAddressRequest, ValidAddressResponse, 'n) rpc" where
  "ChainDispatcher_ValidAddress request s = (Panic ''implement me'', s)"

definition ChainDispatcher_GetBlockByNumber ::
  "(BlockNumberRequest, BlockResponse, 'n) rpc" where
  "ChainDispatcher_GetBlockByNumber request s =
     (case preHandler (dispatcher s) request of
        Some resp \<Rightarrow>
          (Return (Some \<lparr>Code = ReturnCode_ERROR, Msg = ''get block by number fail at pre handle'', BlockResponse.Hash = [], BlockResponse.BaseFee = [],
                        BlockResponse.Transactions = []\<rparr>, None), s)
      | None \<Rightarrow> registry_call (Chain request) (\<lambda>a. GetBlockByNumber a request) s)"

definition ChainDispatcher_GetBlockByHash ::
  "(BlockHashRequest, BlockResponse, 'n) rpc" where
  "ChainDispatcher_GetBlockByHash request s =
     (case preHandler (dispatcher s) request of
        Some resp \<Rightarrow>
          (Return (Some \<lparr>Code = ReturnCode_ERROR, Msg = ''get block by hash fail at pre handle'', BlockResponse.Hash = [], BlockResponse.BaseFee = [],
                        BlockResponse.Transactions = []\<rparr>, None), s)
      | None \<Rightarrow> registry_call (Chain request) (\<lambda>a. GetBlockByHash a request) s)"

definition ChainDispatcher_GetBlockHeaderByHash ::
  "(BlockHeaderHashRequest, BlockHeaderResponse, 'n) rpc" where
  "ChainDispatcher_GetBlockHeaderByHash request s =
     (case preHandler (dispatcher s) request of
        Some resp \<Rightarrow>
          (Return (Some \<lparr>Code = ReturnCode_ERROR, Msg = ''get block header by hash fail at pre handle'', BlockHeader = None\<rparr>, None), s)
      | None \<Rightarrow> registry_call (Chain request) (\<lambda>a. GetBlockHeaderByHash a request) s)"

definition ChainDispatcher_GetBlockHeaderByNumber ::
  "(BlockHeaderNumberRequest, BlockHeaderResponse, 'n) rpc" where
  "ChainDispatcher_GetBlockHeaderByNumber request s =
     (case preHandler (dispatcher s) request of
        Some resp \<Rightarrow>
          (Return (Some \<lparr>Code = ReturnCode_ERROR, Msg = ''get block header by number fail at pre handle'', BlockHeader = None\<rparr>, None), s)
      | None \<Rightarrow> registry_call (Chain request) (\<lambda>a. GetBlockHeaderByNumber a request) s)"

definition ChainDispatcher_GetAccount ::
  "(AccountRequest, AccountResponse, 'n) rpc" where
  "ChainDispatcher_GetAccount request s =
     (case preHandler (dispatcher s) request of
        Some resp \<Rightarrow>
          (Return (Some \<lparr>Code = ReturnCode_ERROR, Msg = ''get account information fail at pre handle'', AccountNumber = [], Sequence = [],
                        Balance = []\<rparr>, None), s)
      | None \<Rightarrow> registry_call (Chain request) (\<lambda>a. GetAccount a request) s)"

definition ChainDispatcher_GetFee ::
  "(FeeRequest, FeeResponse, 'n) rpc" where
  "ChainDispatcher_GetFee request s =
     (case preHandler (dispatcher s) request of
        Some resp \<Rightarrow>
          (Return (Some \<lparr>Code = ReturnCode_ERROR, Msg = ''get fee fail at pre handle''\<rparr>, None), s)
      | None \<Rightarrow> registry_call (Chain request) (\<lambda>a. GetFee a request) s)"

definition ChainDispatcher_SendTx ::
  "(SendTxRequest, SendTxResponse, 'n) rpc" where
  "ChainDispatcher_SendTx request s =
     (case preHandler (dispatcher s) request of
        Some resp \<Rightarrow>
          (Return (Some \<lparr>Code = ReturnCode_ERROR, Msg = ''send tx fail at pre handle''\<rparr>, None), s)
      | None \<Rightarrow> registry_call (Chain request) (\<lambda>a. SendTx a request) s)"

definition ChainDispatcher_GetTxByAddress ::
  "(TxAddressRequest, TxAddressResponse, 'n) rpc" where
  "ChainDispatcher_GetTxByAddress request s =
     (case preHandler (dispatcher s) request of
        Some resp \<Rightarrow>
          (Return (Some \<lparr>Code = ReturnCode_ERROR, Msg = ''get tx by address fail pre handle''\<rparr>, None), s)
      | None \<Rightarrow> registry_call (Chain request) (\<lambda>a. GetTxByAddress a request) s)"

definition ChainDispatcher_GetTxByHash ::
  "(TxHashRequest, TxHashResponse, 'n) rpc" where
  "ChainDispatcher_GetTxByHash request s =
     (case preHandler (dispatcher s) request of
        Some resp \<Rightarrow>
          (Return (Some \<lparr>Code = ReturnCode_ERROR, Msg = ''get tx by hash fail at pre handle''\<rparr>, None), s)
      | None \<Rightarrow> registry_call (Chain request) (\<lambda>a. GetTxByHash a request) s)"

definition ChainDispatcher_GetBlockByRange ::
  "(BlockByRangeRequest, BlockByRangeResponse, 'n) rpc" where
  "ChainDispatcher_GetBlockByRange request s =
     (case preHandler (dispatcher s) request of
        Some resp \<Rightarrow>
          (Return (Some \<lparr>Code = ReturnCode_ERROR, Msg = ''get blcok by range fail at pre handle''\<rparr>, None), s)
      | None \<Rightarrow> registry_call (Chain request) (\<lambda>a. GetBlockByRange a request) s)"

definition ChainDispatcher_CreateUnSignTransaction ::
  "(UnSignTransactionRequest, UnSignTransactionResponse, 'n) rpc" where
  "ChainDispatcher_CreateUnSignTransaction request s =
     (case preHandler (dispatcher s) request of
        Some resp \<Rightarrow>
          (Return (Some \<lparr>Code = ReturnCode_ERROR, Msg = ''get un sign tx fail at pre handle''\<rparr>, None), s)
      | None \<Rightarrow> registry_call (Chain request) (\<lambda>a. CreateUnSignTransaction a request) s)"

definition ChainDispatcher_BuildSignedTransaction ::
  "(SignedTransactionRequest, SignedTransactionResponse, 'n) rpc" where
  "ChainDispatcher_BuildSignedTransaction request s =
     (case preHandler (dispatcher s) request of
        Some resp \<Rightarrow>
          (Return (Some \<lparr>Code = ReturnCode_ERROR, Msg = ''signed tx fail at pre handle''\<rparr>, None), s)
      | None \<Rightarrow> registry_call (Chain request) (\<lambda>a. BuildSignedTransaction a request) s)"

definition ChainDispatcher_DecodeTransaction ::
  "(DecodeTransactionRequest, DecodeTransactionResponse, 'n) rpc" where
  "ChainDispatcher_DecodeTransaction request s =
     (case preHandler (dispatcher s) request of
        Some resp \<Rightarrow>
          (Return (Some \<lparr>Code = ReturnCode_ERROR, Msg = ''decode tx fail at pre handle''\<rparr>, None), s)
      | None \<Rightarrow> registry_call (Chain request) (\<lambda>a. DecodeTransaction a request) s)"

definition ChainDispatcher_VerifySignedTransaction ::
  "(VerifyTransactionRequest, VerifyTransactionResponse, 'n) rpc" where
  "ChainDispatcher_VerifySignedTransaction request s =
     (case preHandler (dispatcher s) request of
        Some resp \<Rightarrow>
          (Return (Some \<lparr>Code = ReturnCode_ERROR, Msg = ''verify tx fail at pre handle''\<rparr>, None), s)
      | None \<Rightarrow> registry_call (Chain request) (\<lambda>a. VerifySignedTransaction a request) s)"

definition ChainDispatcher_GetExtraData ::
  "(ExtraDataRequest, ExtraDataResponse, 'n) rpc" where
  "ChainDispatcher_GetExtraData request s =
     (case preHandler (dispatcher s) request of
        Some resp \<Rightarrow>
          (Return (Some \<lparr>Code = ReturnCode_ERROR, Msg = ''get extra data fail at pre handle''\<rparr>, None), s)
      | None \<Rightarrow> registry_call (Chain request) (\<lambda>a. GetExtraData a request) s)"

section \<open>Concrete inputs\<close>

text \<open>
  A network state that counts the calls made into it, clients and library functions that
  answer with fixed values, and an adaptor that only counts its invocations: the inputs at
  which the theorems below are instantiated.
\<close>

definition probe_method :: "'q \<Rightarrow> nat World \<Rightarrow> 'r reply outcome \<times> nat World" where
  "probe_method req w = (Return (None, None), w\<lparr>net := Suc (net w)\<rparr>)"

definition probe :: "nat IChainAdaptor" where
  "probe =
     \<lparr>GetSupportChains = probe_method, ConvertAddress = probe_method,
      ValidAddress = probe_method, GetBlockByNumber = probe_method,
      GetBlockByHash = probe_method, GetBlockHeaderByHash = probe_method,
      GetBlockHeaderByNumber = probe_method, GetAccount = probe_method,
      GetFee = probe_method, SendTx = probe_method, GetTxByAddress = probe_method,
      GetTxByHash = probe_method, GetBlockByRange = probe_method,
      CreateUnSignTransaction = probe_method, BuildSignedTransaction = probe_method,
      DecodeTransaction = probe_method, VerifySignedTransaction = probe_method,
      GetExtraData = probe_method\<rparr>"

definition header0 :: Header where
  "header0 =
     \<lparr>Header.ParentHash = [], Header.UncleHash = [], Coinbase = [], Header.Root = [],
      Header.TxHash = [], Header.ReceiptHash = [], Header.Difficulty = None,
      Header.Number = Some 1, Header.GasLimit = 0, Header.GasUsed = 0, Header.Time = 0,
      Header.Extra = [], Header.MixDigest = [], Header.Nonce = 0, Header.BaseFee = None,
      Header.WithdrawalsHash = Some [], Header.BlobGasUsed = Some 0,
      Header.ExcessBlobGas = Some 0, Header.ParentBeaconRoot = Some []\<rparr>"


definition block0 :: RpcBlock where
  "block0 =
     \<lparr>RpcBlock.Hash = [], RpcBlock.BaseFee = ''7'',
      RpcBlock.Transactions = [\<lparr>TransactionList.To = ''0xb'', TransactionList.Hash = ''0xc''\<rparr>]\<rparr>"

definition client0 :: "nat EthClient" where
  "client0 =
     \<lparr>BlockHeaderByHash = (\<lambda>h n. (Inr header0, Suc n)),
      BlockHeaderByNumber =
        (\<lambda>h n. (if h = None then Inl (Error ''no latest header'') else Inr header0, Suc n)),
      BlockByNumber = (\<lambda>h n. (if h = Some 0 then Inl (Error ''not found'') else Inr block0, Suc n)),
      TxCountByAddress = (\<lambda>a n. (Inr 5, Suc n))\<rparr>"

definition data0 :: "nat EthData" where
  "data0 =
     \<lparr>getBalanceByaddress =
        (\<lambda>contract address n.
           (if address = [] then Inl (Error ''no address'') else Inr \<lparr>BalanceStr = ''100''\<rparr>,
            Suc n))\<rparr>"

definition ext0 :: "nat Externals" where
  "ext0 =
     \<lparr>Keccak256 = (\<lambda>bs. take 32 (bs @ replicate 32 0)),
      Address_String = (\<lambda>a. ''0x''),
      Hash_String = (\<lambda>h. ''0x''),
      HexToHash = (\<lambda>s. replicate 32 0),
      HexToAddress = (\<lambda>s. replicate 20 0),
      BigInt_String = (\<lambda>i. ''<nil>''),
      FormatUint = (\<lambda>u. ''0''),
      Uint64_String = (\<lambda>u. ''0x5''),
      DialEthClient = (\<lambda>url n. (if url = [] then Inl (Error ''dial'') else Inr client0, Suc n)),
      NewEthDataClient = (\<lambda>url key timeout n. (Inr data0, Suc n))\<rparr>"

definition adaptor0 :: "nat ChainAdaptor" where
  "adaptor0 = \<lparr>ethClient = client0, ethDataClient = data0\<rparr>"

definition world0 :: "nat World" where
  "world0 = \<lparr>logs = [], net = 0\<rparr>"

definition conf0 :: Config where
  "conf0 =
     \<lparr>Server = \<lparr>Port = ''8189''\<rparr>, Chains = [''Ethereum'', ''Bitcoin''],
      WalletNode = \<lparr>Eth = \<lparr>RPCs = [\<lparr>RPCURL = ''http://node''\<rparr>], DataApiUrl = ''http://data'',
                                  DataApiKey = ''key'', TimeOut = 15\<rparr>\<rparr>\<rparr>"

definition conf_fail :: Config where
  "conf_fail =
     \<lparr>Server = \<lparr>Port = ''8189''\<rparr>, Chains = [''Bitcoin'', ''Ethereum''],
      WalletNode = \<lparr>Eth = \<lparr>RPCs = [\<lparr>RPCURL = []\<rparr>], DataApiUrl = ''http://data'',
                                  DataApiKey = ''key'', TimeOut = 15\<rparr>\<rparr>\<rparr>"

definition serving_probe :: "nat Serving" where
  "serving_probe = \<lparr>dispatcher = \<lparr>registry = [''Ethereum'' \<mapsto> probe]\<rparr>, world = world0\<rparr>"

definition serving_eth :: "nat Serving" where
  "serving_eth =
     \<lparr>dispatcher = \<lparr>registry = [''Ethereum'' \<mapsto> as_IChainAdaptor ext0 adaptor0]\<rparr>,
      world = world0\<rparr>"

definition key65 :: "byte list" where
  "key65 = 4 # replicate 64 1"

section \<open>Properties\<close>

subsection \<open>Auxiliary facts\<close>


lemma preHandler_unknown:
  "registry d (Chain req) = None \<Longrightarrow>
   preHandler d req =
     Some \<lparr>Code = ReturnCode_ERROR, Msg = UnsupportedOperation, Support = False\<rparr>"
  by (simp add: preHandler_def)

lemma preHandler_known: "registry d (Chain req) = Some a \<Longrightarrow> preHandler d req = None"
  by (simp add: preHandler_def)

lemma registry_call_known:
  "registry (dispatcher s) k = Some a \<Longrightarrow>
   registry_call k m s = (case m a (world s) of (r, w) \<Rightarrow> (r, s\<lparr>world := w\<rparr>))"
  by (simp add: registry_call_def)

lemma registry_call_dispatcher: "dispatcher (snd (registry_call k m s)) = dispatcher s"
  by (simp add: registry_call_def split: option.split prod.split)

text \<open>
  Each of the seventeen routed operations, on a chain that is registered, is one call of
  the method of the adaptor registered under that chain, on the request as it came.
\<close>

lemma GetSupportChains_registered:
  "registry (dispatcher s) (Chain request) = Some a \<Longrightarrow>
   ChainDispatcher_GetSupportChains request s =
     (case GetSupportChains a request (world s) of (r, w) \<Rightarrow> (r, s\<lparr>world := w\<rparr>))"
  by (simp add: ChainDispatcher_GetSupportChains_def preHandler_known registry_call_known)

lemma ConvertAddress_registered:
  "registry (dispatcher s) (Chain request) = Some a \<Longrightarrow>
   ChainDispatcher_ConvertAddress request s =
     (case ConvertAddress a request (world s) of (r, w) \<Rightarrow> (r, s\<lparr>world := w\<rparr>))"
  by (simp add: ChainDispatcher_ConvertAddress_def preHandler_known registry_call_known)

lemma GetBlockByNumber_registered:
  "registry (dispatcher s) (Chain request) = Some a \<Longrightarrow>
   ChainDispatcher_GetBlockByNumber request s =
     (case GetBlockByNumber a request (world s) of (r, w) \<Rightarrow> (r, s\<lparr>world := w\<rparr>))"
  by (simp add: ChainDispatcher_GetBlockByNumber_def preHandler_known registry_call_known)


lemma GetBlockHeaderByHash_registered:
  "registry (dispatcher s) (Chain request) = Some a \<Longrightarrow>
   ChainDispatcher_GetBlockHeaderByHash request s =
     (case GetBlockHeaderByHash a request (world s) of (r, w) \<Rightarrow> (r, s\<lparr>world := w\<rparr>))"
  by (simp add: ChainDispatcher_GetBlockHeaderByHash_def preHandler_known registry_call_known)

lemma GetBlockHeaderByNumber_registered:
  "registry (dispatcher s) (Chain request) = Some a \<Longrightarrow>
   ChainDispatcher_GetBlockHeaderByNumber request s =
     (case GetBlockHeaderByNumber a request (world s) of (r, w) \<Rightarrow> (r, s\<lparr>world := w\<rparr>))"
  by (simp add: ChainDispatcher_GetBlockHeaderByNumber_def preHandler_known registry_call_known)

lemma GetAccount_registered:
  "registry (dispatcher s) (Chain request) = Some a \<Longrightarrow>
   ChainDispatcher_GetAccount request s =
     (case GetAccount a request (world s) of (r, w) \<Rightarrow> (r, s\<lparr>world := w\<rparr>))"
  by (simp add: ChainDispatcher_GetAccount_def preHandler_known registry_call_known)











lemma GetSupportChains_unknown:
  "registry (dispatcher s) (Chain request) = None \<Longrightarrow>
   ChainDispatcher_GetSupportChains request s =
     (Return (Some \<lparr>Code = ReturnCode_ERROR, Msg = UnsupportedOperation, Support = False\<rparr>, None), s)"
  by (simp add: ChainDispatcher_GetSupportChains_def preHandler_unknown)

lemma ConvertAddress_unknown:
  "registry (dispatcher s) (Chain request) = None \<Longrightarrow>
   ChainDispatcher_ConvertAddress request s =
     (Return (Some \<lparr>Code = ReturnCode_ERROR, Msg = ''covert address fail at pre handle'', Address = []\<rparr>, None), s)"
  by (simp add: ChainDispatcher_ConvertAddress_def preHandler_unknown)

lemma GetBlockByNumber_unknown:
  "registry (dispatcher s) (Chain request) = None \<Longrightarrow>
   ChainDispatcher_GetBlockByNumber request s =
     (Return (Some \<lparr>Code = ReturnCode_ERROR, Msg = ''get block by number fail at pre handle'', BlockResponse.Hash = [], BlockResponse.BaseFee = [],
            BlockResponse.Transactions = []\<rparr>, None), s)"
  by (simp add: ChainDispatcher_GetBlockByNumber_def preHandler_unknown)

lemma GetBlockByHash_unknown:
  "registry (dispatcher s) (Chain request) = None \<Longrightarrow>
   ChainDispatcher_GetBlockByHash request s =
     (Return (Some \<lparr>Code = ReturnCode_ERROR, Msg = ''get block by hash fail at pre handle'', BlockResponse.Hash = [], BlockResponse.BaseFee = [],
            BlockResponse.Transactions = []\<rparr>, None), s)"
  by (simp add: ChainDispatcher_GetBlockByHash_def preHandler_unknown)

lemma GetBlockHeaderByHash_unknown:
  "registry (dispatcher s) (Chain request) = None \<Longrightarrow>
   ChainDispatcher_GetBlockHeaderByHash request s =
     (Return (Some \<lparr>Code = ReturnCode_ERROR, Msg = ''get block header by hash fail at pre handle'', BlockHeader = None\<rparr>, None), s)"
  by (simp add: ChainDispatcher_GetBlockHeaderByHash_def preHandler_unknown)

lemma GetBlockHeaderByNumber_unknown:
  "registry (dispatcher s) (Chain request) = None \<Longrightarrow>
   ChainDispatcher_GetBlockHeaderByNumber request s =
     (Return (Some \<lparr>Code = ReturnCode_ERROR, Msg = ''get block header by number fail at pre handle'', BlockHeader = None\<rparr>, None), s)"
  by (simp add: ChainDispatcher_GetBlockHeaderByNumber_def preHandler_unknown)

lemma GetAccount_unknown:
  "registry (dispatcher s) (Chain request) = None \<Longrightarrow>
   ChainDispatcher_GetAccount request s =
     (Return (Some \<lparr>Code = ReturnCode_ERROR, Msg = ''get account information fail at pre handle'', AccountNumber = [], Sequence = [], Balance = []\<rparr>, None), s)"
  by (simp add: ChainDispatcher_GetAccount_def preHandler_unknown)

lemma GetFee_unknown:
  "registry (dispatcher s) (Chain request) = None \<Longrightarrow>
   ChainDispatcher_GetFee request s =
     (Return (Some \<lparr>Code = ReturnCode_ERROR, Msg = ''get fee fail at pre handle''\<rparr>, None), s)"
  by (simp add: ChainDispatcher_GetFee_def preHandler_unknown)

lemma SendTx_unknown:
  "registry (dispatcher s) (Chain request) = None \<Longrightarrow>
   ChainDispatcher_SendTx request s =
     (Return (Some \<lparr>Code = ReturnCode_ERROR, Msg = ''send tx fail at pre handle''\<rparr>, None), s)"
  by (simp add: ChainDispatcher_SendTx_def preHandler_unknown)

lemma GetTxByAddress_unknown:
  "registry (dispatcher s) (Chain request) = None \<Longrightarrow>
   ChainDispatcher_GetTxByAddress request s =
     (Return (Some \<lparr>Code = ReturnCode_ERROR, Msg = ''get tx by address fail pre handle''\<rparr>, None), s)"
  by (simp add: ChainDispatcher_GetTxByAddress_def preHandler_unknown)

lemma GetTxByHash_unknown:
  "registry (dispatcher s) (Chain request) = None \<Longrightarrow>
   ChainDispatcher_GetTxByHash request s =
     (Return (Some \<lparr>Code = ReturnCode_ERROR, Msg = ''get tx by hash fail at pre handle''\<rparr>, None), s)"
  by (simp add: ChainDispatcher_GetTxByHash_def preHandler_unknown)

lemma GetBlockByRange_unknown:
  "registry (dispatcher s) (Chain request) = None \<Longrightarrow>
   ChainDispatcher_GetBlockByRange request s =
     (Return (Some \<lparr>Code = ReturnCode_ERROR, Msg = ''get blcok by range fail at pre handle''\<rparr>, None), s)"
  by (simp add: ChainDispatcher_GetBlockByRange_def preHandler_unknown)

lemma CreateUnSignTransaction_unknown:
  "registry (dispatcher s) (Chain request) = None \<Longrightarrow>
   ChainDispatcher_CreateUnSignTransaction request s =
     (Return (Some \<lparr>Code = ReturnCode_ERROR, Msg = ''get un sign tx fail at pre handle''\<rparr>, None), s)"
  by (simp add: ChainDispatcher_CreateUnSignTransaction_def preHandler_unknown)

lemma BuildSignedTransaction_unknown:
  "registry (dispatcher s) (Chain request) = None \<Longrightarrow>
   ChainDispatcher_BuildSignedTransaction request s =
     (Return (Some \<lparr>Code = ReturnCode_ERROR, Msg = ''signed tx fail at pre handle''\<rparr>, None), s)"
  by (simp add: ChainDispatcher_BuildSignedTransaction_def preHandler_unknown)

lemma DecodeTransaction_unknown:
  "registry (dispatcher s) (Chain request) = None \<Longrightarrow>
   ChainDispatcher_DecodeTransaction request s =
     (Return (Some \<lparr>Code = ReturnCode_ERROR, Msg = ''decode tx fail at pre handle''\<rparr>, None), s)"
  by (simp add: ChainDispatcher_DecodeTransaction_def preHandler_unknown)

lemma VerifySignedTransaction_unknown:
  "registry (dispatcher s) (Chain request) = None \<Longrightarrow>
   ChainDispatcher_VerifySignedTransaction request s =
     (Return (Some \<lparr>Code = ReturnCode_ERROR, Msg = ''verify tx fail at pre handle''\<rparr>, None), s)"
  by (simp add: ChainDispatcher_VerifySignedTransaction_def preHandler_unknown)

lemma GetExtraData_unknown:
  "registry (dispatcher s) (Chain request) = None \<Longrightarrow>
   ChainDispatcher_GetExtraData request s =
     (Return (Some \<lparr>Code = ReturnCode_ERROR, Msg = ''get extra data fail at pre handle''\<rparr>, None), s)"
  by (simp add: ChainDispatcher_GetExtraData_def preHandler_unknown)

lemma GetSupportChains_frame: "dispatcher (snd (ChainDispatcher_GetSupportChains request s)) = dispatcher s"
  by (simp add: ChainDispatcher_GetSupportChains_def registry_call_dispatcher split: option.split)

lemma ConvertAddress_frame: "dispatcher (snd (ChainDispatcher_ConvertAddress request s)) = dispatcher s"
  by (simp add: ChainDispatcher_ConvertAddress_def registry_call_dispatcher split: option.split)

lemma GetBlockByNumber_frame: "dispatcher (snd (ChainDispatcher_GetBlockByNumber request s)) = dispatcher s"
  by (simp add: ChainDispatcher_GetBlockByNumber_def registry_call_dispatcher split: option.split)

lemma GetBlockByHash_frame: "dispatcher (snd (ChainDispatcher_GetBlockByHash request s)) = dispatcher s"
  by (simp add: ChainDispatcher_GetBlockByHash_def registry_call_dispatcher split: option.split)

lemma GetBlockHeaderByHash_frame: "dispatcher (snd (ChainDispatcher_GetBlockHeaderByHash request s)) = dispatcher s"
  by (simp add: ChainDispatcher_GetBlockHeaderByHash_def registry_call_dispatcher split: option.split)

lemma GetBlockHeaderByNumber_frame: "dispatcher (snd (ChainDispatcher_GetBlockHeaderByNumber request s)) = dispatcher s"
  by (simp add: ChainDispatcher_GetBlockHeaderByNumber_def registry_call_dispatcher split: option.split)

lemma GetAccount_frame: "dispatcher (snd (ChainDispatcher_GetAccount request s)) = dispatcher s"
  by (simp add: ChainDispatcher_GetAccount_def registry_call_dispatcher split: option.split)

lemma GetFee_frame: "dispatcher (snd (ChainDispatcher_GetFee request s)) = dispatcher s"
  by (simp add: ChainDispatcher_GetFee_def registry_call_dispatcher split: option.split)

lemma SendTx_frame: "dispatcher (snd (ChainDispatcher_SendTx request s)) = dispatcher s"
  by (simp add: ChainDispatcher_SendTx_def registry_call_dispatcher split: option.split)

lemma GetTxByAddress_frame: "dispatcher (snd (ChainDispatcher_GetTxByAddress request s)) = dispatcher s"
  by (simp add: ChainDispatcher_GetTxByAddress_def registry_call_dispatcher split: option.split)

lemma GetTxByHash_frame: "dispatcher (snd (ChainDispatcher_GetTxByHash request s)) = dispatcher s"
  by (simp add: ChainDispatcher_GetTxByHash_def registry_call_dispatcher split: option.split)

lemma GetBlockByRange_frame: "dispatcher (snd (ChainDispatcher_GetBlockByRange request s)) = dispatcher s"
  by (simp add: ChainDispatcher_GetBlockByRange_def registry_call_dispatcher split: option.split)

lemma CreateUnSignTransaction_frame: "dispatcher (snd (ChainDispatcher_CreateUnSignTransaction request s)) = dispatcher s"
  by (simp add: ChainDispatcher_CreateUnSignTransaction_def registry_call_dispatcher split: option.split)

lemma BuildSignedTransaction_frame: "dispatcher (snd (ChainDispatcher_BuildSignedTransaction request s)) = dispatcher s"
  by (simp add: ChainDispatcher_BuildSignedTransaction_def registry_call_dispatcher split: option.split)

lemma DecodeTransaction_frame: "dispatcher (snd (ChainDispatcher_DecodeTransaction request s)) = dispatcher s"
  by (simp add: ChainDispatcher_DecodeTransaction_def registry_call_dispatcher split: option.split)

lemma VerifySignedTransaction_frame: "dispatcher (snd (ChainDispatcher_VerifySignedTransaction request s)) = dispatcher s"
  by (simp add: ChainDispatcher_VerifySignedTransaction_def registry_call_dispatcher split: option.split)

lemma GetExtraData_frame: "dispatcher (snd (ChainDispatcher_GetExtraData request s)) = dispatcher s"
  by (simp add: ChainDispatcher_GetExtraData_def registry_call_dispatcher split: option.split)

subsection \<open>Requests for a chain that is not registered\<close>

text \<open>
  C1, as the code has it. For a request whose chain is not a key of the registry, each
  operation other than \<open>ValidAddress\<close> returns an envelope with status ERROR, a nil error
  and a zero payload, and leaves the state as it was, so that no adaptor has run. The
  message is \<open>config.UnsupportedOperation\<close> for \<open>GetSupportChains\<close> and a text of its
  own for each of the other sixteen operations.
\<close>

theorem unknown_chain_short_circuit:
  "(registry (dispatcher s) (Chain r) = None \<longrightarrow>
       ChainDispatcher_GetSupportChains r s =
         (Return (Some \<lparr>Code = ReturnCode_ERROR, Msg = UnsupportedOperation, Support = False\<rparr>, None), s) \<and>
       ChainDispatcher_GetBlockByHash r s =
         (Return (Some \<lparr>Code = ReturnCode_ERROR, Msg = ''get block by hash fail at pre handle'', BlockResponse.Hash = [], BlockResponse.BaseFee = [],
            BlockResponse.Transactions = []\<rparr>, None), s) \<and>
       ChainDispatcher_GetFee r s =
         (Return (Some \<lparr>Code = ReturnCode_ERROR, Msg = ''get fee fail at pre handle''\<rparr>, None), s) \<and>
       ChainDispatcher_SendTx r s =
         (Return (Some \<lparr>Code = ReturnCode_ERROR, Msg = ''send tx fail at pre handle''\<rparr>, None), s) \<and>
       ChainDispatcher_GetTxByAddress r s =
         (Return (Some \<lparr>Code = ReturnCode_ERROR, Msg = ''get tx by address fail pre handle''\<rparr>, None), s) \<and>
       ChainDispatcher_GetTxByHash r s =
         (Return (Some \<lparr>Code = ReturnCode_ERROR, Msg = ''get tx by hash fail at pre handle''\<rparr>, None), s) \<and>
       ChainDispatcher_GetBlockByRange r s =
         (Return (Some \<lparr>Code = ReturnCode_ERROR, Msg = ''get blcok by range fail at pre handle''\<rparr>, None), s) \<and>
       ChainDispatcher_CreateUnSignTransaction r s =
         (Return (Some \<lparr>Code = ReturnCode_ERROR, Msg = ''get un sign tx fail at pre handle''\<rparr>, None), s) \<and>
       ChainDispatcher_BuildSignedTransaction r s =
         (Return (Some \<lparr>Code = ReturnCode_ERROR, Msg = ''signed tx fail at pre handle''\<rparr>, None), s) \<and>
       ChainDispatcher_DecodeTransaction r s =
         (Return (Some \<lparr>Code = ReturnCode_ERROR, Msg = ''decode tx fail at pre handle''\<rparr>, None), s) \<and>
       ChainDispatcher_VerifySignedTransaction r s =
         (Return (Some \<lparr>Code = ReturnCode_ERROR, Msg = ''verify tx fail at pre handle''\<rparr>, None), s) \<and>
       ChainDispatcher_GetExtraData r s =
         (Return (Some \<lparr>Code = ReturnCode_ERROR, Msg = ''get extra data fail at pre handle''\<rparr>, None), s)) \<and>
   (registry (dispatcher s) (Chain ca) = None \<longrightarrow>
       ChainDispatcher_ConvertAddress ca s =
         (Return (Some \<lparr>Code = ReturnCode_ERROR, Msg = ''covert address fail at pre handle'', Address = []\<rparr>, None), s)) \<and>
   (registry (dispatcher s) (Chain bn) = None \<longrightarrow>
       ChainDispatcher_GetBlockByNumber bn s =
         (Return (Some \<lparr>Code = ReturnCode_ERROR, Msg = ''get block by number fail at pre handle'', BlockResponse.Hash = [], BlockResponse.BaseFee = [],
            BlockResponse.Transactions = []\<rparr>, None), s)) \<and>
   (registry (dispatcher s) (Chain hh) = None \<longrightarrow>
       ChainDispatcher_GetBlockHeaderByHash hh s =
         (Return (Some \<lparr>Code = ReturnCode_ERROR, Msg = ''get block header by hash fail at pre handle'', BlockHeader = None\<rparr>, None), s)) \<and>
   (registry (dispatcher s) (Chain hn) = None \<longrightarrow>
       ChainDispatcher_GetBlockHeaderByNumber hn s =
         (Return (Some \<lparr>Code = ReturnCode_ERROR, Msg = ''get block header by number fail at pre handle'', BlockHeader = None\<rparr>, None), s)) \<and>
   (registry (dispatcher s) (Chain acc) = None \<longrightarrow>
       ChainDispatcher_GetAccount acc s =
         (Return (Some \<lparr>Code = ReturnCode_ERROR, Msg = ''get account information fail at pre handle'', AccountNumber = [], Sequence = [], Balance = []\<rparr>, None), s))"
  by (simp add: GetSupportChains_unknown ConvertAddress_unknown GetBlockByNumber_unknown GetBlockByHash_unknown GetBlockHeaderByHash_unknown GetBlockHeaderByNumber_unknown GetAccount_unknown GetFee_unknown SendTx_unknown GetTxByAddress_unknown GetTxByHash_unknown GetBlockByRange_unknown CreateUnSignTransaction_unknown BuildSignedTransaction_unknown DecodeTransaction_unknown VerifySignedTransaction_unknown GetExtraData_unknown)

theorem unknown_chain_short_circuit_witness:
  "registry (dispatcher serving_probe) (Chain \<lparr>Chain = ''Bitcoin''\<rparr>) = None \<and>
   registry (dispatcher serving_probe) (Chain \<lparr>Chain = ''Bitcoin'', PublicKey = key65\<rparr>) = None \<and>
   registry (dispatcher serving_probe)
     (Chain \<lparr>Chain = ''Bitcoin'', BlockNumberRequest.Height = 7\<rparr>) = None \<and>
   registry (dispatcher serving_probe)
     (Chain \<lparr>Chain = ''Bitcoin'', BlockHeaderHashRequest.Hash = ''0x1''\<rparr>) = None \<and>
   registry (dispatcher serving_probe)
     (Chain \<lparr>Chain = ''Bitcoin'', BlockHeaderNumberRequest.Height = 7\<rparr>) = None \<and>
   registry (dispatcher serving_probe)
     (Chain \<lparr>Chain = ''Bitcoin'', AccountRequest.Address = ''0xa'', ContractAddress = []\<rparr>) = None \<and>
   ChainDispatcher_GetSupportChains \<lparr>Chain = ''Bitcoin''\<rparr> serving_probe =
     (Return (Some \<lparr>Code = ReturnCode_ERROR, Msg = UnsupportedOperation, Support = False\<rparr>,
              None), serving_probe) \<and>
   ChainDispatcher_ConvertAddress \<lparr>Chain = ''Bitcoin'', PublicKey = key65\<rparr> serving_probe =
     (Return (Some \<lparr>Code = ReturnCode_ERROR, Msg = ''covert address fail at pre handle'',
                     Address = []\<rparr>, None), serving_probe) \<and>
   ChainDispatcher_GetBlockByNumber \<lparr>Chain = ''Bitcoin'', BlockNumberRequest.Height = 7\<rparr>
       serving_probe =
     (Return (Some \<lparr>Code = ReturnCode_ERROR, Msg = ''get block by number fail at pre handle'',
                     BlockResponse.Hash = [], BlockResponse.BaseFee = [],
                     BlockResponse.Transactions = []\<rparr>, None), serving_probe) \<and>
   ChainDispatcher_GetBlockHeaderByHash
       \<lparr>Chain = ''Bitcoin'', BlockHeaderHashRequest.Hash = ''0x1''\<rparr> serving_probe =
     (Return (Some \<lparr>Code = ReturnCode_ERROR,
                     Msg = ''get block header by hash fail at pre handle'',
                     BlockHeader = None\<rparr>, None), serving_probe) \<and>
   ChainDispatcher_GetBlockHeaderByNumber
       \<lparr>Chain = ''Bitcoin'', BlockHeaderNumberRequest.Height = 7\<rparr> serving_probe =
     (Return (Some \<lparr>Code = ReturnCode_ERROR,
                     Msg = ''get block header by number fail at pre handle'',
                     BlockHeader = None\<rparr>, None), serving_probe) \<and>
   ChainDispatcher_GetAccount
       \<lparr>Chain = ''Bitcoin'', AccountRequest.Address = ''0xa'', ContractAddress = []\<rparr>
       serving_probe =
     (Return (Some \<lparr>Code = ReturnCode_ERROR,
                     Msg = ''get account information fail at pre handle'',
                     AccountNumber = [], Sequence = [], Balance = []\<rparr>, None), serving_probe)"
  using unknown_chain_short_circuit
    [of serving_probe "\<lparr>Chain = ''Bitcoin''\<rparr>" "\<lparr>Chain = ''Bitcoin'', PublicKey = key65\<rparr>"
        "\<lparr>Chain = ''Bitcoin'', BlockNumberRequest.Height = 7\<rparr>"
        "\<lparr>Chain = ''Bitcoin'', BlockHeaderHashRequest.Hash = ''0x1''\<rparr>"
        "\<lparr>Chain = ''Bitcoin'', BlockHeaderNumberRequest.Height = 7\<rparr>"
        "\<lparr>Chain = ''Bitcoin'', AccountRequest.Address = ''0xa'', ContractAddress = []\<rparr>"]
  by (simp add: serving_probe_def)

text \<open>
  C1 as stated fails: \<open>ConvertAddress\<close> for the unregistered chain \<open>Bitcoin\<close> answers
  with its own message, which is not the unsupported-operation message.
\<close>

theorem unknown_chain_message_counterexample:
  "registry (dispatcher serving_probe) (Chain \<lparr>Chain = ''Bitcoin'', PublicKey = key65\<rparr>) = None \<and>
   fst (ChainDispatcher_ConvertAddress \<lparr>Chain = ''Bitcoin'', PublicKey = key65\<rparr> serving_probe) =
     Return (Some \<lparr>Code = ReturnCode_ERROR, Msg = ''covert address fail at pre handle'',
                    Address = []\<rparr>, None) \<and>
   ''covert address fail at pre handle'' \<noteq> UnsupportedOperation"
  by (simp add: ConvertAddress_unknown serving_probe_def UnsupportedOperation_def)

subsection \<open>Operations the ethereum adaptor does not implement\<close>





subsection \<open>The interceptor\<close>

text \<open>
  C3 as stated fails: when the handler panics, the interceptor returns no response
  envelope at all, and the message of the error it returns carries the panic value.
\<close>

theorem Interceptor_envelope_counterexample:
  "fst (Interceptor \<lparr>Chain = ''Ethereum''\<rparr>
          \<lparr>FullMethod = ''/account.WalletAccountService/ValidAddress''\<rparr>
          ChainDispatcher_ValidAddress serving_probe) =
     Return (None, Some (StatusError Internal ''Panic err: implement me''))"
  by (simp add: Interceptor_def Let_def status_Errorf_def ChainDispatcher_ValidAddress_def)

text \<open>
  C3, as the code has it. When the handler panics with \<open>e\<close>, the interceptor returns: the
  response is nil and the error is the status error \<open>Internal\<close> with message
  \<open>Panic err: \<close> followed by \<open>e\<close>. The panic value and the stack are logged, at error
  and at debug level, after what the handler left behind. Whatever the handler does, the
  interceptor itself does not panic.
\<close>

theorem Interceptor_recovers_panic:
  "(handler req
      (slog (Log LvlInfo (drop (nat (LastIndex (FullMethod info) (CHR ''/'') + 1))
                            (FullMethod info))
               [LStr ''chain'', LStr (Chain req), LStr ''req'', LAny]) s) = (Panic e, s2) \<longrightarrow>
    Interceptor req info handler s =
      (Return (None, Some (StatusError Internal (''Panic err: '' @ e))),
       slog LogStack (slog (Log LvlError ''panic error'' [LStr ''msg'', LStr e]) s2))) \<and>
   fst (Interceptor req info handler s) \<noteq> Panic p"
  by (simp add: Interceptor_def Let_def status_Errorf_def split: prod.split outcome.split)

theorem Interceptor_recovers_panic_witness:
  "ChainDispatcher_GetTxByHash \<lparr>Chain = ''Ethereum''\<rparr>
     (slog (Log LvlInfo
              (drop (nat (LastIndex (FullMethod \<lparr>FullMethod = ''/svc/GetTxByHash''\<rparr>) (CHR ''/'') + 1))
                 (FullMethod \<lparr>FullMethod = ''/svc/GetTxByHash''\<rparr>))
              [LStr ''chain'', LStr (Chain \<lparr>Chain = ''Ethereum''\<rparr>), LStr ''req'', LAny])
        serving_eth) =
     (Panic ''implement me'',
      serving_eth\<lparr>world := world0\<lparr>logs := [Log LvlInfo ''GetTxByHash''
                                         [LStr ''chain'', LStr ''Ethereum'', LStr ''req'', LAny]]\<rparr>\<rparr>) \<and>
   Interceptor \<lparr>Chain = ''Ethereum''\<rparr> \<lparr>FullMethod = ''/svc/GetTxByHash''\<rparr>
       ChainDispatcher_GetTxByHash serving_eth =
     (Return (None, Some (StatusError Internal ''Panic err: implement me'')),
      serving_eth\<lparr>world := world0\<lparr>logs :=
        [Log LvlInfo ''GetTxByHash'' [LStr ''chain'', LStr ''Ethereum'', LStr ''req'', LAny],
         Log LvlError ''panic error'' [LStr ''msg'', LStr ''implement me''],
         LogStack]\<rparr>\<rparr>) \<and>
   fst (Interceptor \<lparr>Chain = ''Ethereum''\<rparr> \<lparr>FullMethod = ''/svc/GetTxByHash''\<rparr>
          ChainDispatcher_GetTxByHash serving_eth) \<noteq> Panic ''implement me''"
proof -
  let ?s1 = "serving_eth\<lparr>world := world0\<lparr>logs := [Log LvlInfo ''GetTxByHash''
                [LStr ''chain'', LStr ''Ethereum'', LStr ''req'', LAny]]\<rparr>\<rparr>"
  have h: "ChainDispatcher_GetTxByHash \<lparr>Chain = ''Ethereum''\<rparr>
     (slog (Log LvlInfo
              (drop (nat (LastIndex (FullMethod \<lparr>FullMethod = ''/svc/GetTxByHash''\<rparr>) (CHR ''/'') + 1))
                 (FullMethod \<lparr>FullMethod = ''/svc/GetTxByHash''\<rparr>))
              [LStr ''chain'', LStr (Chain \<lparr>Chain = ''Ethereum''\<rparr>), LStr ''req'', LAny])
        serving_eth) = (Panic ''implement me'', ?s1)"
    by (simp add: ChainDispatcher_GetTxByHash_def preHandler_def registry_call_def
          serving_eth_def as_IChainAdaptor_def ChainAdaptor_GetTxByHash_def slog_def log_def
          world0_def LastIndex_def)
  show ?thesis
    using h Interceptor_recovers_panic
        [of ChainDispatcher_GetTxByHash "\<lparr>Chain = ''Ethereum''\<rparr>"
            "\<lparr>FullMethod = ''/svc/GetTxByHash''\<rparr>" serving_eth "''implement me''" ?s1
            "''implement me''"]
    by (simp add: slog_def log_def world0_def serving_eth_def)
qed

subsection \<open>Requests for a registered chain\<close>

text \<open>
  C4 at \<open>ValidAddress\<close>: with the probe registered under \<open>Ethereum\<close>, the dispatcher's
  \<open>ValidAddress\<close> panics and the probe has counted no call, where the call
  \<open>d.registry[request.Chain].ValidAddress(request)\<close> that the seventeen other operations
  make for their method returns the probe's reply and counts one call.
\<close>

theorem ValidAddress_never_dispatches:
  "registry (dispatcher serving_probe) (Chain \<lparr>Chain = ''Ethereum''\<rparr>) = Some probe \<and>
   ChainDispatcher_ValidAddress \<lparr>Chain = ''Ethereum''\<rparr> serving_probe =
     (Panic ''implement me'', serving_probe) \<and>
   net (world (snd (ChainDispatcher_ValidAddress \<lparr>Chain = ''Ethereum''\<rparr> serving_probe))) = 0 \<and>
   registry_call ''Ethereum'' (\<lambda>a. ValidAddress a \<lparr>Chain = ''Ethereum''\<rparr>) serving_probe =
     (Return (None, None), serving_probe\<lparr>world := world0\<lparr>net := 1\<rparr>\<rparr>)"
  by (simp add: ChainDispatcher_ValidAddress_def registry_call_def serving_probe_def
        probe_def probe_method_def world0_def)

subsection \<open>The registry while serving\<close>

lemma ValidAddress_frame:
  "dispatcher (snd (ChainDispatcher_ValidAddress request s)) = dispatcher s"
  by (simp add: ChainDispatcher_ValidAddress_def)

lemma Interceptor_frame:
  assumes "\<And>t. dispatcher (snd (handler req t)) = dispatcher t"
  shows "dispatcher (snd (Interceptor req info handler s)) = dispatcher s"
proof -
  let ?s1 = "slog (Log LvlInfo (drop (nat (LastIndex (FullMethod info) (CHR ''/'') + 1))
                                  (FullMethod info))
                     [LStr ''chain'', LStr (Chain req), LStr ''req'', LAny]) s"
  obtain r s2 where h: "handler req ?s1 = (r, s2)"
    by (cases "handler req ?s1")
  with assms [of ?s1] have "dispatcher s2 = dispatcher s"
    by (simp add: slog_def)
  with h show ?thesis
    by (cases r) (auto simp: Interceptor_def Let_def slog_def)
qed

text \<open>
  C8. Each of the eighteen operations of the dispatcher, called directly or under the
  interceptor, leaves the registry as it found it, whatever the request and whatever the
  adaptors do.
\<close>

theorem operations_leave_registry:
  "registry (dispatcher (snd (ChainDispatcher_GetSupportChains r s))) =
     registry (dispatcher s) \<and>
   registry (dispatcher (snd (ChainDispatcher_ConvertAddress ca s))) =
     registry (dispatcher s) \<and>
   registry (dispatcher (snd (ChainDispatcher_ValidAddress r s))) =
     registry (dispatcher s) \<and>
   registry (dispatcher (snd (ChainDispatcher_GetBlockByNumber bn s))) =
     registry (dispatcher s) \<and>
   registry (dispatcher (snd (ChainDispatcher_GetBlockByHash r s))) =
     registry (dispatcher s) \<and>
   registry (dispatcher (snd (ChainDispatcher_GetBlockHeaderByHash hh s))) =
     registry (dispatcher s) \<and>
   registry (dispatcher (snd (ChainDispatcher_GetBlockHeaderByNumber hn s))) =
     registry (dispatcher s) \<and>
   registry (dispatcher (snd (ChainDispatcher_GetAccount acc s))) =
     registry (dispatcher s) \<and>
   registry (dispatcher (snd (ChainDispatcher_GetFee r s))) =
     registry (dispatcher s) \<and>
   registry (dispatcher (snd (ChainDispatcher_SendTx r s))) =
     registry (dispatcher s) \<and>
   registry (dispatcher (snd (ChainDispatcher_GetTxByAddress r s))) =
     registry (dispatcher s) \<and>
   registry (dispatcher (snd (ChainDispatcher_GetTxByHash r s))) =
     registry (dispatcher s) \<and>
   registry (dispatcher (snd (ChainDispatcher_GetBlockByRange r s))) =
     registry (dispatcher s) \<and>
   registry (dispatcher (snd (ChainDispatcher_CreateUnSignTransaction r s))) =
     registry (dispatcher s) \<and>
   registry (dispatcher (snd (ChainDispatcher_BuildSignedTransaction r s))) =
     registry (dispatcher s) \<and>
   registry (dispatcher (snd (ChainDispatcher_DecodeTransaction r s))) =
     registry (dispatcher s) \<and>
   registry (dispatcher (snd (ChainDispatcher_VerifySignedTransaction r s))) =
     registry (dispatcher s) \<and>
   registry (dispatcher (snd (ChainDispatcher_GetExtraData r s))) =
     registry (dispatcher s) \<and>
   registry (dispatcher (snd (Interceptor r info ChainDispatcher_GetSupportChains s))) =
     registry (dispatcher s) \<and>
   registry (dispatcher (snd (Interceptor ca info ChainDispatcher_ConvertAddress s))) =
     registry (dispatcher s) \<and>
   registry (dispatcher (snd (Interceptor r info ChainDispatcher_ValidAddress s))) =
     registry (dispatcher s) \<and>
   registry (dispatcher (snd (Interceptor bn info ChainDispatcher_GetBlockByNumber s))) =
     registry (dispatcher s) \<and>
   registry (dispatcher (snd (Interceptor r info ChainDispatcher_GetBlockByHash s))) =
     registry (dispatcher s) \<and>
   registry (dispatcher (snd (Interceptor hh info ChainDispatcher_GetBlockHeaderByHash s))) =
     registry (dispatcher s) \<and>
   registry (dispatcher (snd (Interceptor hn info ChainDispatcher_GetBlockHeaderByNumber s))) =
     registry (dispatcher s) \<and>
   registry (dispatcher (snd (Interceptor acc info ChainDispatcher_GetAccount s))) =
     registry (dispatcher s) \<and>
   registry (dispatcher (snd (Interceptor r info ChainDispatcher_GetFee s))) =
     registry (dispatcher s) \<and>
   registry (dispatcher (snd (Interceptor r info ChainDispatcher_SendTx s))) =
     registry (dispatcher s) \<and>
   registry (dispatcher (snd (Interceptor r info ChainDispatcher_GetTxByAddress s))) =
     registry (dispatcher s) \<and>
   registry (dispatcher (snd (Interceptor r info ChainDispatcher_GetTxByHash s))) =
     registry (dispatcher s) \<and>
   registry (dispatcher (snd (Interceptor r info ChainDispatcher_GetBlockByRange s))) =
     registry (dispatcher s) \<and>
   registry (dispatcher (snd (Interceptor r info ChainDispatcher_CreateUnSignTransaction s))) =
     registry (dispatcher s) \<and>
   registry (dispatcher (snd (Interceptor r info ChainDispatcher_BuildSignedTransaction s))) =
     registry (dispatcher s) \<and>
   registry (dispatcher (snd (Interceptor r info ChainDispatcher_DecodeTransaction s))) =
     registry (dispatcher s) \<and>
   registry (dispatcher (snd (Interceptor r info ChainDispatcher_VerifySignedTransaction s))) =
     registry (dispatcher s) \<and>
   registry (dispatcher (snd (Interceptor r info ChainDispatcher_GetExtraData s))) =
     registry (dispatcher s)"
  by (simp add: Interceptor_frame GetSupportChains_frame ConvertAddress_frame ValidAddress_frame GetBlockByNumber_frame GetBlockByHash_frame GetBlockHeaderByHash_frame GetBlockHeaderByNumber_frame GetAccount_frame GetFee_frame SendTx_frame GetTxByAddress_frame GetTxByHash_frame GetBlockByRange_frame CreateUnSignTransaction_frame BuildSignedTransaction_frame DecodeTransaction_frame VerifySignedTransaction_frame GetExtraData_frame)

subsection \<open>\<open>ValidAddress\<close> of the ethereum adaptor\<close>

text \<open>
  C9. For every request, \<open>ValidAddress\<close> of the ethereum adaptor returns a nil response
  and a nil error and leaves the world as it was; so it does as the method of the interface
  value that \<open>NewChainAdaptor\<close> returns.
\<close>

theorem ValidAddress_returns_nil:
  "ChainAdaptor_ValidAddress c req w = (Return (None, None), w) \<and>
   ValidAddress (as_IChainAdaptor ext c) req w = (Return (None, None), w)"
  by (simp add: ChainAdaptor_ValidAddress_def as_IChainAdaptor_def)

subsection \<open>Building the registry\<close>

lemma factory_is_NewChainAdaptor:
  "chainAdaptorFactorMap ext c = Some factory \<Longrightarrow> c = ChainName \<and> factory = NewChainAdaptor ext"
  by (simp add: chainAdaptorFactorMap_def split: if_splits)

lemma NewChainAdaptor_logs: "logs (snd (NewChainAdaptor ext conf w)) = logs w"
  by (simp add: NewChainAdaptor_def on_net_def split: list.split prod.split sum.split)

lemma NewChainAdaptor_no_Exit: "fst (NewChainAdaptor ext conf w) \<noteq> Exit n"
  by (simp add: NewChainAdaptor_def on_net_def split: list.split prod.split sum.split)

lemma New_loop_Return:
  "New_loop ext conf cs d w = (Return d', w') \<Longrightarrow>
   dom (registry d') = dom (registry d) \<union> (set cs \<inter> dom (chainAdaptorFactorMap ext)) \<and>
   logs w' =
     logs w @
     map (\<lambda>c. Log LvlError ''unsupported chain''
                [LStr ''chain'', LStr c, LStr ''supportedChains'', LStrs supportedChains])
         (filter (\<lambda>c. chainAdaptorFactorMap ext c = None) cs)"
proof (induction cs arbitrary: d w)
  case Nil
  then show ?case by simp
next
  case (Cons c cs)
  show ?case
  proof (cases "chainAdaptorFactorMap ext c")
    case None
    with Cons.prems have
      "New_loop ext conf cs d
         (log (Log LvlError ''unsupported chain''
                 [LStr ''chain'', LStr c, LStr ''supportedChains'', LStrs supportedChains]) w) =
       (Return d', w')"
      by simp
    from Cons.IH [OF this] None show ?thesis
      by (auto simp: log_def)
  next
    case (Some factory)
    then have f: "factory = NewChainAdaptor ext"
      by (simp add: factory_is_NewChainAdaptor)
    obtain r w1 where r: "NewChainAdaptor ext conf w = (r, w1)"
      by (cases "NewChainAdaptor ext conf w")
    with Cons.prems Some f obtain adaptor where
      "r = Return (Inr adaptor)" and
      "New_loop ext conf cs (d\<lparr>registry := (registry d)(c \<mapsto> adaptor)\<rparr>) w1 = (Return d', w')"
      by (auto split: outcome.splits sum.splits)
    note ih = Cons.IH [OF this(2)]
    have "dom (registry (d\<lparr>registry := (registry d)(c \<mapsto> adaptor)\<rparr>)) =
            insert c (dom (registry d))"
      by (auto split: if_splits)
    with ih have
      keys: "dom (registry d') =
               insert c (dom (registry d)) \<union> (set cs \<inter> dom (chainAdaptorFactorMap ext))"
      by blast
    from ih have
      events: "logs w' =
                 logs w1 @
                 map (\<lambda>c. Log LvlError ''unsupported chain''
                            [LStr ''chain'', LStr c, LStr ''supportedChains'',
                             LStrs supportedChains])
                     (filter (\<lambda>c. chainAdaptorFactorMap ext c = None) cs)"
      by blast
    from Some have c: "c \<in> dom (chainAdaptorFactorMap ext)"
      by (simp add: domI)
    from NewChainAdaptor_logs [of ext conf w] r have "logs w1 = logs w"
      by simp
    with events Some have "logs w' =
        logs w @
        map (\<lambda>c. Log LvlError ''unsupported chain''
                   [LStr ''chain'', LStr c, LStr ''supportedChains'', LStrs supportedChains])
            (filter (\<lambda>c. chainAdaptorFactorMap ext c = None) (c # cs))"
      by simp
    moreover from keys c have
      "dom (registry d') =
         dom (registry d) \<union> (set (c # cs) \<inter> dom (chainAdaptorFactorMap ext))"
      by auto
    ultimately show ?thesis
      by blast
  qed
qed

lemma New_loop_Exit:
  "New_loop ext conf cs d w = (Exit n, w') \<Longrightarrow>
   n = 1 \<and>
   (\<exists>c e. c \<in> set cs \<and> chainAdaptorFactorMap ext c \<noteq> None \<and>
      logs w' \<noteq> [] \<and>
      last (logs w') =
        Log LvlCrit ''failed to setup chain''
          [LStr ''chain'', LStr c, LStr ''error'', LErr (Some e)])"
proof (induction cs arbitrary: d w)
  case Nil
  then show ?case by simp
next
  case (Cons c cs)
  show ?case
  proof (cases "chainAdaptorFactorMap ext c")
    case None
    with Cons.prems have
      "New_loop ext conf cs d
         (log (Log LvlError ''unsupported chain''
                 [LStr ''chain'', LStr c, LStr ''supportedChains'', LStrs supportedChains]) w) =
       (Exit n, w')"
      by simp
    from Cons.IH [OF this] show ?thesis
      by auto
  next
    case (Some factory)
    then have f: "factory = NewChainAdaptor ext"
      by (simp add: factory_is_NewChainAdaptor)
    obtain r w1 where r: "NewChainAdaptor ext conf w = (r, w1)"
      by (cases "NewChainAdaptor ext conf w")
    with NewChainAdaptor_no_Exit [of ext conf w] have noexit: "\<And>k. r \<noteq> Exit k"
      by simp
    show ?thesis
    proof (cases r)
      case (Return x)
      show ?thesis
      proof (cases x)
        case (Inl err)
        with Cons.prems Some f r Return show ?thesis
          by (auto simp: log_def)
      next
        case (Inr adaptor)
        with Cons.prems Some f r Return have
          "New_loop ext conf cs (d\<lparr>registry := (registry d)(c \<mapsto> adaptor)\<rparr>) w1 = (Exit n, w')"
          by simp
        from Cons.IH [OF this] show ?thesis
          by auto
      qed
    next
      case (Panic e)
      with Cons.prems Some f r show ?thesis by simp
    next
      case (Exit k)
      with noexit [of k] show ?thesis by simp
    qed
  qed
qed

text \<open>
  C5. When \<open>New\<close> returns, the keys of the registry are exactly the configured chains
  that have a factory, hence a subset of the configured chains, and the log has grown by
  one \<open>unsupported chain\<close> event for each configured chain without a factory, in the
  order of the configuration, and by nothing else.
\<close>

theorem New_registry_keys:
  "fst (New ext conf w) = Return (d, err) \<Longrightarrow>
   dom (registry d) = set (Chains conf) \<inter> dom (chainAdaptorFactorMap ext) \<and>
   dom (registry d) \<subseteq> set (Chains conf) \<and>
   logs (snd (New ext conf w)) =
     logs w @
     map (\<lambda>c. Log LvlError ''unsupported chain''
                [LStr ''chain'', LStr c, LStr ''supportedChains'', LStrs supportedChains])
         (filter (\<lambda>c. chainAdaptorFactorMap ext c = None) (Chains conf))"
proof -
  assume ret: "fst (New ext conf w) = Return (d, err)"
  obtain r w' where loop: "New_loop ext conf (Chains conf) \<lparr>registry = Map.empty\<rparr> w = (r, w')"
    by (cases "New_loop ext conf (Chains conf) \<lparr>registry = Map.empty\<rparr> w")
  with ret have r: "r = Return d"
    by (cases r) (simp_all add: New_def)
  from loop r have w': "snd (New ext conf w) = w'"
    by (simp add: New_def)
  from New_loop_Return [OF loop [unfolded r]] w' show ?thesis
    by auto
qed

theorem New_registry_keys_witness:
  "fst (New ext0 conf0 world0) = Return (dispatcher serving_eth, None) \<and>
   dom (registry (dispatcher serving_eth)) = {''Ethereum''} \<and>
   dom (registry (dispatcher serving_eth)) \<subseteq> set (Chains conf0) \<and>
   logs (snd (New ext0 conf0 world0)) =
     [Log LvlError ''unsupported chain''
        [LStr ''chain'', LStr ''Bitcoin'', LStr ''supportedChains'', LStrs [''Ethereum'']]]"
proof -
  have h: "fst (New ext0 conf0 world0) = Return (dispatcher serving_eth, None)"
    by (simp add: New_def conf0_def chainAdaptorFactorMap_def ChainName_def NewChainAdaptor_def
          on_net_def ext0_def world0_def serving_eth_def adaptor0_def log_def)
  from New_registry_keys [OF h] h show ?thesis
    by (simp add: conf0_def chainAdaptorFactorMap_def ChainName_def supportedChains_def
          world0_def)
qed

text \<open>
  C10. \<open>New\<close> never returns an error: when it returns, the error is nil. When it ends
  the process instead, it does so with status 1, and the last event logged is the critical
  \<open>failed to setup chain\<close> for a configured chain that has a factory.
\<close>

theorem New_error_is_nil:
  "(fst (New ext conf w) = Return (d, err) \<longrightarrow> err = None) \<and>
   (fst (New ext conf w) = Exit n \<longrightarrow>
      n = 1 \<and>
      (\<exists>c e. c \<in> set (Chains conf) \<and> chainAdaptorFactorMap ext c \<noteq> None \<and>
         last (logs (snd (New ext conf w))) =
           Log LvlCrit ''failed to setup chain''
             [LStr ''chain'', LStr c, LStr ''error'', LErr (Some e)]))"
proof -
  obtain r w' where loop: "New_loop ext conf (Chains conf) \<lparr>registry = Map.empty\<rparr> w = (r, w')"
    by (cases "New_loop ext conf (Chains conf) \<lparr>registry = Map.empty\<rparr> w")
  show ?thesis
  proof (cases r)
    case (Return d')
    with loop show ?thesis by (simp add: New_def)
  next
    case (Panic e)
    with loop show ?thesis by (simp add: New_def)
  next
    case (Exit k)
    with loop have "fst (New ext conf w) = Exit k" and "snd (New ext conf w) = w'"
      by (simp_all add: New_def)
    with New_loop_Exit [OF loop [unfolded Exit]] show ?thesis
      by auto
  qed
qed

theorem New_error_is_nil_witness:
  "fst (New ext0 conf0 world0) = Return (dispatcher serving_eth, None) \<and>
   fst (New ext0 conf_fail world0) = Exit 1 \<and>
   (\<exists>c e. c \<in> set (Chains conf_fail) \<and> chainAdaptorFactorMap ext0 c \<noteq> None \<and>
      last (logs (snd (New ext0 conf_fail world0))) =
        Log LvlCrit ''failed to setup chain''
          [LStr ''chain'', LStr c, LStr ''error'', LErr (Some e)])"
proof -
  have h1: "fst (New ext0 conf0 world0) = Return (dispatcher serving_eth, None)"
    by (simp add: New_def conf0_def chainAdaptorFactorMap_def ChainName_def NewChainAdaptor_def
          on_net_def ext0_def world0_def serving_eth_def adaptor0_def log_def)
  have h2: "fst (New ext0 conf_fail world0) = Exit 1"
    by (simp add: New_def conf_fail_def chainAdaptorFactorMap_def ChainName_def
          NewChainAdaptor_def on_net_def ext0_def world0_def log_def)
  from New_error_is_nil [of ext0 conf0 world0 "dispatcher serving_eth" None 0]
    New_error_is_nil [of ext0 conf_fail world0 "dispatcher serving_eth" None 1] h1 h2
  show ?thesis
    by simp
qed

subsection \<open>The ethereum adaptor's replies\<close>


lemma BytesToAddress_20: "length b = AddressLength \<Longrightarrow> BytesToAddress b = b"
  by (simp add: BytesToAddress_def)

text \<open>
  C6. For a public key of 65 bytes, and a \<open>Keccak256\<close> that returns the 32 bytes of a
  hash, \<open>ConvertAddress\<close> of the ethereum adaptor returns status SUCCESS and a nil error,
  and the address is \<open>Address.String\<close> (the checksummed hex form) of the last 20 bytes of
  the hash of the last 64 bytes of the key.
\<close>

theorem ConvertAddress_uncompressed_key:
  "length (PublicKey req) = 65 \<Longrightarrow>
   length (Keccak256 ext (drop (length (PublicKey req) - 64) (PublicKey req))) = 32 \<Longrightarrow>
   ChainAdaptor_ConvertAddress ext c req w =
     (Return (Some \<lparr>Code = ReturnCode_SUCCESS, Msg = ''convert address successs'',
                     Address =
                       Address_String ext
                         (drop (length (Keccak256 ext (drop (length (PublicKey req) - 64)
                                                         (PublicKey req))) - 20)
                            (Keccak256 ext (drop (length (PublicKey req) - 64)
                                              (PublicKey req))))\<rparr>,
              None), w) \<and>
   length (drop (length (PublicKey req) - 64) (PublicKey req)) = 64 \<and>
   length (drop (length (Keccak256 ext (drop (length (PublicKey req) - 64)
                                          (PublicKey req))) - 20)
             (Keccak256 ext (drop (length (PublicKey req) - 64) (PublicKey req)))) = 20"
  by (simp add: ChainAdaptor_ConvertAddress_def Let_def BytesToAddress_20 AddressLength_def)

theorem ConvertAddress_uncompressed_key_witness:
  "length (PublicKey \<lparr>Chain = ''Ethereum'', PublicKey = key65\<rparr>) = 65 \<and>
   length (Keccak256 ext0 (drop (length (PublicKey \<lparr>Chain = ''Ethereum'', PublicKey = key65\<rparr>) - 64)
                             (PublicKey \<lparr>Chain = ''Ethereum'', PublicKey = key65\<rparr>))) = 32 \<and>
   ChainAdaptor_ConvertAddress ext0 adaptor0 \<lparr>Chain = ''Ethereum'', PublicKey = key65\<rparr> world0 =
     (Return (Some \<lparr>Code = ReturnCode_SUCCESS, Msg = ''convert address successs'',
                     Address = ''0x''\<rparr>, None), world0)"
proof -
  have k: "length (PublicKey \<lparr>Chain = ''Ethereum'', PublicKey = key65\<rparr>) = 65"
    by (simp add: key65_def)
  have h: "length (Keccak256 ext0
                     (drop (length (PublicKey \<lparr>Chain = ''Ethereum'', PublicKey = key65\<rparr>) - 64)
                        (PublicKey \<lparr>Chain = ''Ethereum'', PublicKey = key65\<rparr>))) = 32"
    by (simp add: ext0_def)
  have a: "Address_String ext0 x = ''0x''" for x
    by (simp add: ext0_def)
  from ConvertAddress_uncompressed_key [OF k h, of adaptor0 world0] k h show ?thesis
    by (simp add: a)
qed










end
